theory Spec2Isabelle
  imports Complex_Main
begin

section \<open>The EditBar plugin: data\<close>

text \<open>
  The contextual toolbar of the editor (class \<open>EditBar\<close>). Elements of a selection are
  opaque DOM references of type \<open>'e\<close>; attribute values (\<open>any\<close> in the source) are of
  type \<open>'v\<close>. A \<open>Record<string, any>\<close> is a map from keys to values.
\<close>

type_synonym 'v attrs = "string \<rightharpoonup> 'v"

datatype SelectionType = SelText | SelIcon | SelGeometry | SelMixed

text \<open>
  A \<open>DOMRect\<close>. Pixel quantities are JavaScript numbers; they are taken as real
  numbers here (no rounding, no NaN, no infinities).
\<close>

record rect =
  rectX :: real
  rectY :: real
  rectWidth :: real
  rectHeight :: real

text \<open>
  The helpers that \<open>edit-bar\<close> imports from \<open>utils\<close> and \<open>jsx\<close> are not part of the
  sources at hand; the plugin is parametrised by them. \<open>getTextAttributes\<close> stands for
  \<open>getTextElementProps(e).attributes\<close>, which may be undefined.
\<close>

record ('e, 'v) utils =
  isEditableText :: "'e \<Rightarrow> bool"
  isIconElement :: "'e \<Rightarrow> bool"
  isGeometryElement :: "'e \<Rightarrow> bool"
  getTextAttributes :: "'e \<Rightarrow> 'v attrs option"
  getIconAttrs :: "'e \<Rightarrow> 'v attrs"
  getCombinedBounds :: "rect list \<Rightarrow> rect"

section \<open>Selection classification\<close>

record flags =
  hasText :: bool
  hasIcon :: bool
  hasGeometry :: bool

definition noFlags :: flags where
  "noFlags = \<lparr>hasText = False, hasIcon = False, hasGeometry = False\<rparr>"

text \<open>The body of the \<open>for\<close> loop of \<open>getSelectionType\<close> up to the \<open>break\<close> test.\<close>

definition probeItem :: "('e, 'v) utils \<Rightarrow> 'e \<Rightarrow> flags \<Rightarrow> flags" where
  "probeItem U item f =
     (if isEditableText U item then f\<lparr>hasText := True\<rparr>
      else if isIconElement U item then f\<lparr>hasIcon := True\<rparr>
      else if isGeometryElement U item then f\<lparr>hasGeometry := True\<rparr>
      else f)"

definition allFlags :: "flags \<Rightarrow> bool" where
  "allFlags f = (hasText f \<and> hasIcon f \<and> hasGeometry f)"

text \<open>
  The loop itself. Besides the flags it returns how many elements were probed, so
  that the effect of the \<open>break\<close> can be observed.
\<close>

fun probeLoop :: "('e, 'v) utils \<Rightarrow> 'e list \<Rightarrow> flags \<Rightarrow> nat \<Rightarrow> flags \<times> nat" where
  "probeLoop U [] f n = (f, n)"
| "probeLoop U (item # rest) f n =
     (let f' = probeItem U item f
      in if allFlags f' then (f', Suc n) else probeLoop U rest f' (Suc n))"

definition classify :: "flags \<Rightarrow> SelectionType" where
  "classify f =
     (if hasText f \<and> \<not> hasIcon f \<and> \<not> hasGeometry f then SelText
      else if \<not> hasText f \<and> hasIcon f \<and> \<not> hasGeometry f then SelIcon
      else if \<not> hasText f \<and> \<not> hasIcon f \<and> hasGeometry f then SelGeometry
      else SelMixed)"

definition getSelectionType :: "('e, 'v) utils \<Rightarrow> 'e list \<Rightarrow> SelectionType" where
  "getSelectionType U selection = classify (fst (probeLoop U selection noFlags 0))"

definition probedCount :: "('e, 'v) utils \<Rightarrow> 'e list \<Rightarrow> nat" where
  "probedCount U selection = snd (probeLoop U selection noFlags 0)"

text \<open>
  The capability that the probe of one element records: the first of editable-text,
  icon, geometry that the element has. It is used to state what the classification
  computes, not to compute it.
\<close>

datatype capability = CapText | CapIcon | CapGeometry

definition observed :: "('e, 'v) utils \<Rightarrow> 'e \<Rightarrow> capability option" where
  "observed U item =
     (if isEditableText U item then Some CapText
      else if isIconElement U item then Some CapIcon
      else if isGeometryElement U item then Some CapGeometry
      else None)"

definition typeOfCapability :: "capability \<Rightarrow> SelectionType" where
  "typeOfCapability c = (case c of CapText \<Rightarrow> SelText | CapIcon \<Rightarrow> SelIcon | CapGeometry \<Rightarrow> SelGeometry)"

definition hasCapability :: "('e, 'v) utils \<Rightarrow> capability \<Rightarrow> 'e \<Rightarrow> bool" where
  "hasCapability U c item =
     (case c of CapText \<Rightarrow> isEditableText U item
      | CapIcon \<Rightarrow> isIconElement U item
      | CapGeometry \<Rightarrow> isGeometryElement U item)"

section \<open>Merged attributes\<close>

text \<open>
  Modelled from the spec: \<open>getCommonAttrs\<close> of \<open>utils\<close> is missing from the sources.
  The spec: ``an attribute key is included in the merged result only if every element
  shares one identical value for that key''; the merged result then carries that value.
\<close>

definition getCommonAttrs :: "'v attrs list \<Rightarrow> 'v attrs" where
  "getCommonAttrs as =
     (\<lambda>k. case as of
            [] \<Rightarrow> None
          | a # rest \<Rightarrow>
              (case a k of
                 None \<Rightarrow> None
               | Some v \<Rightarrow> if list_all (\<lambda>b. b k = Some v) rest then Some v else None))"

text \<open>\<open>getTextElementProps(text).attributes || {}\<close>\<close>

definition textAttrs :: "('e, 'v) utils \<Rightarrow> 'e \<Rightarrow> 'v attrs" where
  "textAttrs U e = (case getTextAttributes U e of None \<Rightarrow> Map.empty | Some a \<Rightarrow> a)"

definition getSelectionAttributes :: "('e, 'v) utils \<Rightarrow> 'e list \<Rightarrow> 'v attrs" where
  "getSelectionAttributes U selection =
     (if length selection = 0 then Map.empty
      else
        let selectionType = getSelectionType U selection in
        if selectionType = SelText then
          (case selection of
             [e] \<Rightarrow> textAttrs U e
           | _ \<Rightarrow> getCommonAttrs (map (textAttrs U) selection))
        else if selectionType = SelIcon then
          (case selection of
             [e] \<Rightarrow> getIconAttrs U e
           | _ \<Rightarrow> getCommonAttrs (map (getIconAttrs U) selection))
        else Map.empty)"

section \<open>Placement\<close>

text \<open>
  What \<open>placeEditBar\<close> reads from the browser: the rectangles of the selected elements
  and of the toolbar container, the container's offset parent, the size of the
  viewport and the scroll offsets.
\<close>

datatype offsetParent = NoOffsetParent | Body | DocumentElement | Positioned rect

record 'e dom =
  elementRect :: "'e \<Rightarrow> rect"
  containerRect :: rect
  containerOffsetParent :: offsetParent
  clientHeight :: real
  clientWidth :: real
  windowScrollX :: real
  windowScrollY :: real
  scrollLeft :: real
  scrollTop :: real

text \<open>\<open>DOMRect.left\<close> and \<open>DOMRect.top\<close>.\<close>

definition rectLeft :: "rect \<Rightarrow> real" where
  "rectLeft r = min (rectX r) (rectX r + rectWidth r)"

definition rectTop :: "rect \<Rightarrow> real" where
  "rectTop r = min (rectY r) (rectY r + rectHeight r)"

definition clamp :: "real \<Rightarrow> real \<Rightarrow> real \<Rightarrow> real" where
  "clamp value mn mx = min (max value mn) mx"

definition offset :: real where
  "offset = 8"

text \<open>\<open>a || b\<close> on numbers: \<open>b\<close> when \<open>a\<close> is zero.\<close>

definition orElse :: "real \<Rightarrow> real \<Rightarrow> real" where
  "orElse a b = (if a \<noteq> 0 then a else b)"

definition spaceAbove :: "rect \<Rightarrow> real" where
  "spaceAbove B = rectY B - offset"

definition spaceBelow :: "'e dom \<Rightarrow> rect \<Rightarrow> real" where
  "spaceBelow D B = clientHeight D - (rectY B + rectHeight B) - offset"

definition shouldPlaceAbove :: "'e dom \<Rightarrow> rect \<Rightarrow> bool" where
  "shouldPlaceAbove D B =
     (spaceAbove B \<ge> rectHeight (containerRect D) \<or> spaceAbove B \<ge> spaceBelow D B)"

text \<open>
  The pair \<open>(left, top)\<close> that \<open>placeEditBar\<close> writes into the container's style, from
  the combined bounds \<open>B\<close> of the selection.
\<close>

definition placement :: "'e dom \<Rightarrow> rect \<Rightarrow> real \<times> real" where
  "placement D B =
     (let T = containerRect D;
          anchorTopX = rectX B + rectWidth B / 2;
          anchorTopY = rectY B;
          anchorBottomY = rectY B + rectHeight B
      in case containerOffsetParent D of
           Positioned parentRect \<Rightarrow>
             (clamp (anchorTopX - rectLeft parentRect - rectWidth T / 2) 0
                (max (rectWidth parentRect - rectWidth T) 0),
              clamp (if shouldPlaceAbove D B
                     then anchorTopY - rectTop parentRect - rectHeight T - offset
                     else anchorBottomY - rectTop parentRect + offset) 0
                (max (rectHeight parentRect - rectHeight T) 0))
         | _ \<Rightarrow>
             (let scrollX = orElse (windowScrollX D) (scrollLeft D);
                  scrollY = orElse (windowScrollY D) (scrollTop D)
              in (clamp (scrollX + anchorTopX - rectWidth T / 2) scrollX
                    (scrollX + max (clientWidth D - rectWidth T) 0),
                  clamp (if shouldPlaceAbove D B
                         then scrollY + anchorTopY - rectHeight T - offset
                         else scrollY + anchorBottomY + offset) scrollY
                    (scrollY + max (clientHeight D - rectHeight T) 0))))"

section \<open>The event bus\<close>

text \<open>
  The four internal events and their payloads: \<open>options:change\<close> with
  \<open>{changes}\<close>, \<open>selection:change\<close> with \<open>{previous, next, added, removed}\<close>,
  \<open>selection:geometrychange\<close> with \<open>{target}\<close>, \<open>history:change\<close> with \<open>{action}\<close>.
\<close>

datatype changeOp = Add | Remove | Update

record 'w ChangeRecord =
  op :: changeOp
  path :: string
  newValue :: 'w

datatype historyAction = Execute | Undo | Redo

datatype ('e, 'w) busEvent =
    OptionsChange "'w ChangeRecord list"
  | SelectionChange "'e list" "'e list" "'e list" "'e list"
  | SelectionGeometryChange 'e
  | HistoryChange historyAction

section \<open>Toolbar items\<close>

text \<open>
  An \<open>HTMLElement\<close> shown in the toolbar. The default controls of \<open>edit-items\<close> are
  recorded by the factory that built them and its arguments (the commander, which is
  the same for all, is left out); \<open>ElementAlign\<close> also takes \<open>enableDistribution\<close>.
  \<open>Custom i c\<close> is an element supplied by the caller: \<open>i\<close> names it, and \<open>c\<close> is
  \<open>Some r\<close> while it carries an \<open>__editBarCleanup\<close> property, which unmounts the React
  root \<open>r\<close>.
\<close>

datatype ('e, 'v) node =
    FontColor "'e list" "'v attrs"
  | FontSize "'e list" "'v attrs"
  | FontAlign "'e list" "'v attrs"
  | FontFamily "'e list" "'v attrs"
  | IconColor "'e list" "'v attrs"
  | ElementAlign "'e list" "'v attrs" bool
  | Custom nat "nat option"

text \<open>
  \<open>EditBarContext\<close>: the commander, the state manager and the command helpers are
  handles that the plugin only passes on; they are left out.
\<close>

record ('e, 'v) EditBarContext =
  ctxSelection :: "'e list"
  ctxAttributes :: "'v attrs"

type_synonym ('e, 'v) CustomEditItem = "('e, 'v) EditBarContext \<Rightarrow> ('e, 'v) node option"

type_synonym ('e, 'v) EditBarRenderer = "('e, 'v) EditBarContext \<Rightarrow> ('e, 'v) node option"

record ('e, 'v) EditBarItemConfig =
  cfgText :: "('e, 'v) CustomEditItem list option"
  cfgIcon :: "('e, 'v) CustomEditItem list option"
  cfgGeometry :: "('e, 'v) CustomEditItem list option"
  cfgMixed :: "('e, 'v) CustomEditItem list option"
  cfgPrepend :: "('e, 'v) CustomEditItem list option"
  cfgAppend :: "('e, 'v) CustomEditItem list option"

text \<open>
  \<open>EditBarOptions\<close>. \<open>style\<close>, \<open>className\<close> and \<open>getContainer\<close> only decide how and
  where the container element is created; what they influence of the placement is
  read from the browser (\<open>dom\<close>).
\<close>

record ('e, 'v) EditBarOptions =
  render :: "('e, 'v) EditBarRenderer option"
  items :: "('e, 'v) EditBarItemConfig option"
  includeDefaults :: "bool option"
  filterSelection :: "('e list \<Rightarrow> bool) option"

definition buildContext :: "('e, 'v) utils \<Rightarrow> 'e list \<Rightarrow> ('e, 'v) EditBarContext" where
  "buildContext U selection =
     \<lparr>ctxSelection = selection, ctxAttributes = getSelectionAttributes U selection\<rparr>"

text \<open>\<open>factories.map(factory => factory(context)).filter(item => item !== null)\<close>\<close>

definition renderCustomItems ::
  "('e, 'v) CustomEditItem list \<Rightarrow> ('e, 'v) EditBarContext \<Rightarrow> ('e, 'v) node list" where
  "renderCustomItems factories context = List.map_filter (\<lambda>factory. factory context) factories"

definition getElementCollectionEditItems :: "'e list \<Rightarrow> ('e, 'v) node list" where
  "getElementCollectionEditItems selection =
     (if length selection \<le> 1 then []
      else [ElementAlign selection Map.empty (length selection > 2)])"

definition getTextEditItems :: "('e, 'v) utils \<Rightarrow> 'e \<Rightarrow> ('e, 'v) node list" where
  "getTextEditItems U text =
     map (\<lambda>item. item [text] (textAttrs U text)) [FontColor, FontSize, FontAlign, FontFamily]"

definition getTextCollectionEditItems :: "('e, 'v) utils \<Rightarrow> 'e list \<Rightarrow> ('e, 'v) node list" where
  "getTextCollectionEditItems U selection =
     (let attrs = getCommonAttrs (map (textAttrs U) selection);
          its = map (\<lambda>item. item selection attrs) [FontColor, FontSize, FontAlign, FontFamily];
          commonItems = getElementCollectionEditItems selection
      in its @ commonItems)"

definition getIconEditItems :: "('e, 'v) utils \<Rightarrow> 'e list \<Rightarrow> ('e, 'v) node list" where
  "getIconEditItems U selection =
     (case selection of
        [] \<Rightarrow> []
      | icon # _ \<Rightarrow> map (\<lambda>item. item selection (getIconAttrs U icon)) [IconColor])"

definition getIconCollectionEditItems :: "('e, 'v) utils \<Rightarrow> 'e list \<Rightarrow> ('e, 'v) node list" where
  "getIconCollectionEditItems U selection =
     (let attrs = getCommonAttrs (map (getIconAttrs U) selection)
      in map (\<lambda>item. item selection attrs) [IconColor])"

definition getGeometryEditItems :: "'e list \<Rightarrow> ('e, 'v) node list" where
  "getGeometryEditItems selection = []"

definition getGeometryCollectionEditItems :: "'e list \<Rightarrow> ('e, 'v) node list" where
  "getGeometryCollectionEditItems selection = getElementCollectionEditItems selection"

definition getDefaultItems ::
  "('e, 'v) utils \<Rightarrow> 'e list \<Rightarrow> SelectionType \<Rightarrow> ('e, 'v) node list" where
  "getDefaultItems U selection selectionType =
     (case selectionType of
        SelText \<Rightarrow>
          (case selection of
             [text] \<Rightarrow> getTextEditItems U text
           | _ \<Rightarrow> getTextCollectionEditItems U selection)
      | SelIcon \<Rightarrow>
          (if length selection = 1 then getIconEditItems U selection
           else getIconCollectionEditItems U selection)
      | SelGeometry \<Rightarrow>
          (if length selection = 1 then getGeometryEditItems selection
           else getGeometryCollectionEditItems selection)
      | SelMixed \<Rightarrow> getElementCollectionEditItems selection)"

text \<open>\<open>itemConfig?.[selectionType]\<close>\<close>

definition typeItemsOf ::
  "('e, 'v) EditBarItemConfig \<Rightarrow> SelectionType \<Rightarrow> ('e, 'v) CustomEditItem list option" where
  "typeItemsOf itemConfig selectionType =
     (case selectionType of
        SelText \<Rightarrow> cfgText itemConfig
      | SelIcon \<Rightarrow> cfgIcon itemConfig
      | SelGeometry \<Rightarrow> cfgGeometry itemConfig
      | SelMixed \<Rightarrow> cfgMixed itemConfig)"

text \<open>
  \<open>getEditItems\<close>, push by push. The closing \<open>items.filter(Boolean)\<close> keeps every
  element of the array, since all of them are objects.
\<close>

definition getEditItems ::
  "('e, 'v) utils \<Rightarrow> ('e, 'v) EditBarOptions option \<Rightarrow> 'e list \<Rightarrow>
   ('e, 'v) EditBarContext option \<Rightarrow> ('e, 'v) node list" where
  "getEditItems U opts selection context =
     (let itemConfig = (case opts of None \<Rightarrow> None | Some ob \<Rightarrow> items ob);
          includeDefaultsV =
            (case opts of
               None \<Rightarrow> True
             | Some ob \<Rightarrow> (case includeDefaults ob of None \<Rightarrow> True | Some b \<Rightarrow> b));
          selectionType = getSelectionType U selection;
          ctx = (case context of Some c \<Rightarrow> c | None \<Rightarrow> buildContext U selection);
          items0 = [];
          items1 =
            (case itemConfig of
               None \<Rightarrow> items0
             | Some ic \<Rightarrow>
                 (case cfgPrepend ic of
                    None \<Rightarrow> items0
                  | Some fs \<Rightarrow> items0 @ renderCustomItems fs ctx));
          items2 =
            (if includeDefaultsV then items1 @ getDefaultItems U selection selectionType
             else items1);
          typeItems =
            (case itemConfig of None \<Rightarrow> None | Some ic \<Rightarrow> typeItemsOf ic selectionType);
          items3 =
            (case typeItems of
               None \<Rightarrow> items2
             | Some fs \<Rightarrow> items2 @ renderCustomItems fs ctx);
          items4 =
            (case itemConfig of
               None \<Rightarrow> items3
             | Some ic \<Rightarrow>
                 (case cfgAppend ic of
                    None \<Rightarrow> items3
                  | Some fs \<Rightarrow> items3 @ renderCustomItems fs ctx))
      in filter (\<lambda>item. True) items4)"

section \<open>The toolbar container and the plugin state\<close>

datatype visibility = Hidden | Visible

record ('e, 'v) containerEl =
  styleVisibility :: visibility
  styleLeft :: real
  styleTop :: real
  children :: "('e, 'v) node list"
  inDocument :: bool

text \<open>What the plugin does to the DOM and to React, in the order it does it.\<close>

datatype ('e, 'v) domOp =
    OpCreate
  | OpHide
  | OpShow
  | OpUnmount nat
  | OpSetItems "('e, 'v) node list"
  | OpPlace
  | OpRemove

datatype listener =
    HandleSelectionChanged
  | HandleGeometryChanged
  | HandleHistoryChanged
  | Foreign nat

text \<open>
  The fields of \<open>EditBar\<close> (\<open>options\<close>, \<open>container\<close>, \<open>selection\<close>), and what it acts
  on: the subscriptions of the emitter it was given, the React roots unmounted so
  far, and the trace of its DOM operations.
\<close>

record ('e, 'v) EditBar =
  options :: "('e, 'v) EditBarOptions option"
  container :: "('e, 'v) containerEl option"
  selection :: "'e list"
  emitter :: "(string \<times> listener) list"
  unmounted :: "nat list"
  trace :: "('e, 'v) domOp list"

definition newEditBar ::
  "('e, 'v) EditBarOptions option \<Rightarrow> (string \<times> listener) list \<Rightarrow> ('e, 'v) EditBar" where
  "newEditBar opts em =
     \<lparr>options = opts, container = None, selection = [], emitter = em, unmounted = [],
      trace = []\<rparr>"

text \<open>
  Modelled from the spec: the emitter is the external \<open>eventemitter3\<close>; the spec has
  \<open>on(event, listener)\<close> and \<open>off(event, listener)\<close> manage subscriptions by exact
  pair identity.
\<close>

definition emitterOn :: "string \<Rightarrow> listener \<Rightarrow> (string \<times> listener) list \<Rightarrow> (string \<times> listener) list" where
  "emitterOn event l em = em @ [(event, l)]"

definition emitterOff :: "string \<Rightarrow> listener \<Rightarrow> (string \<times> listener) list \<Rightarrow> (string \<times> listener) list" where
  "emitterOff event l em = filter (\<lambda>p. p \<noteq> (event, l)) em"

definition init :: "('e, 'v) EditBar \<Rightarrow> ('e, 'v) EditBar" where
  "init s =
     s\<lparr>emitter :=
         emitterOn ''history:change'' HandleHistoryChanged
           (emitterOn ''selection:geometrychange'' HandleGeometryChanged
             (emitterOn ''selection:change'' HandleSelectionChanged (emitter s)))\<rparr>"

definition showContainer :: "('e, 'v) EditBar \<Rightarrow> ('e, 'v) EditBar" where
  "showContainer s =
     (case container s of
        None \<Rightarrow> s
      | Some c \<Rightarrow> s\<lparr>container := Some (c\<lparr>styleVisibility := Visible\<rparr>), trace := trace s @ [OpShow]\<rparr>)"

definition hideContainer :: "('e, 'v) EditBar \<Rightarrow> ('e, 'v) EditBar" where
  "hideContainer s =
     (case container s of
        None \<Rightarrow> s
      | Some c \<Rightarrow> s\<lparr>container := Some (c\<lparr>styleVisibility := Hidden\<rparr>), trace := trace s @ [OpHide]\<rparr>)"

text \<open>
  \<open>container.innerHTML = ''\<close>, then one \<open>appendChild\<close> per item. The items of one
  render are taken to be pairwise different elements.
\<close>

definition setContainerItems :: "('e, 'v) EditBar \<Rightarrow> ('e, 'v) node list \<Rightarrow> ('e, 'v) EditBar" where
  "setContainerItems s its =
     (case container s of
        None \<Rightarrow> s
      | Some c \<Rightarrow> s\<lparr>container := Some (c\<lparr>children := its\<rparr>), trace := trace s @ [OpSetItems its]\<rparr>)"

text \<open>
  \<open>cleanupReactEditBar\<close>: run the element's \<open>__editBarCleanup\<close>, if it has one, and
  delete the property. The result is the element afterwards and the roots unmounted.
\<close>

definition cleanupReactEditBar :: "('e, 'v) node \<Rightarrow> ('e, 'v) node \<times> nat list" where
  "cleanupReactEditBar element =
     (case element of
        Custom i (Some r) \<Rightarrow> (Custom i None, [r])
      | _ \<Rightarrow> (element, []))"

definition cleanupContainerItems :: "('e, 'v) EditBar \<Rightarrow> ('e, 'v) EditBar" where
  "cleanupContainerItems s =
     (case container s of
        None \<Rightarrow> s
      | Some c \<Rightarrow>
          (let cleaned = map cleanupReactEditBar (children c);
               roots = concat (map snd cleaned)
           in s\<lparr>container := Some (c\<lparr>children := map fst cleaned\<rparr>),
                unmounted := unmounted s @ roots,
                trace := trace s @ map OpUnmount roots\<rparr>))"

text \<open>
  \<open>getOrCreateEditBar\<close>: a new container is hidden, at \<open>left: 0; top: 0\<close>, empty, and
  appended to its parent.
\<close>

definition getOrCreateEditBar :: "('e, 'v) EditBar \<Rightarrow> ('e, 'v) EditBar" where
  "getOrCreateEditBar s =
     (case container s of
        Some c \<Rightarrow> s
      | None \<Rightarrow>
          s\<lparr>container :=
              Some \<lparr>styleVisibility = Hidden, styleLeft = 0, styleTop = 0, children = [],
                    inDocument = True\<rparr>,
            trace := trace s @ [OpCreate]\<rparr>)"

definition placeEditBar ::
  "('e, 'v) utils \<Rightarrow> 'e dom \<Rightarrow> ('e, 'v) EditBar \<Rightarrow> 'e list \<Rightarrow> ('e, 'v) EditBar" where
  "placeEditBar U D s sel =
     (if length sel = 0 then s
      else
        case container s of
          None \<Rightarrow> s
        | Some c \<Rightarrow>
            (let combinedBounds = getCombinedBounds U (map (elementRect D) sel);
                 p = placement D combinedBounds
             in s\<lparr>container := Some (c\<lparr>styleLeft := fst p, styleTop := snd p\<rparr>),
                  trace := trace s @ [OpPlace]\<rparr>))"

definition filterRejects :: "('e, 'v) EditBarOptions option \<Rightarrow> 'e list \<Rightarrow> bool" where
  "filterRejects opts next =
     (case opts of
        None \<Rightarrow> False
      | Some ob \<Rightarrow> (case filterSelection ob of None \<Rightarrow> False | Some f \<Rightarrow> \<not> f next))"

definition renderOf :: "('e, 'v) EditBarOptions option \<Rightarrow> ('e, 'v) EditBarRenderer option" where
  "renderOf opts = (case opts of None \<Rightarrow> None | Some ob \<Rightarrow> render ob)"

definition handleSelectionChanged ::
  "('e, 'v) utils \<Rightarrow> 'e dom \<Rightarrow> ('e, 'v) EditBar \<Rightarrow> 'e list \<Rightarrow> ('e, 'v) EditBar" where
  "handleSelectionChanged U D s0 next =
     (let s = s0\<lparr>selection := next\<rparr> in
      if filterRejects (options s) next then hideContainer s
      else if length next = 0 then hideContainer s
      else
        let context = buildContext U next in
        case renderOf (options s) of
          Some r \<Rightarrow>
            (case r context of
               None \<Rightarrow> hideContainer s
             | Some customContent \<Rightarrow>
                 showContainer
                   (placeEditBar U D
                     (setContainerItems (cleanupContainerItems (getOrCreateEditBar s))
                        [customContent])
                     next))
        | None \<Rightarrow>
            (let s1 = getOrCreateEditBar s;
                 its = getEditItems U (options s) next (Some context)
             in if length its = 0 then hideContainer s1
                else showContainer
                       (placeEditBar U D (setContainerItems (cleanupContainerItems s1) its) next)))"

definition handleGeometryChanged ::
  "('e, 'v) utils \<Rightarrow> 'e dom \<Rightarrow> ('e, 'v) EditBar \<Rightarrow> 'e \<Rightarrow> ('e, 'v) EditBar" where
  "handleGeometryChanged U D s target =
     (if target \<notin> set (selection s) \<or> container s = None then s
      else showContainer (placeEditBar U D s (selection s)))"

definition handleHistoryChanged ::
  "('e, 'v) utils \<Rightarrow> 'e dom \<Rightarrow> ('e, 'v) EditBar \<Rightarrow> ('e, 'v) EditBar" where
  "handleHistoryChanged U D s =
     (if container s = None \<or> length (selection s) = 0 then s
      else showContainer (placeEditBar U D s (selection s)))"

text \<open>\<open>destroy\<close>: three \<open>emitter.off\<close>, then \<open>this.container?.remove()\<close>.\<close>

definition destroy :: "('e, 'v) EditBar \<Rightarrow> ('e, 'v) EditBar" where
  "destroy s =
     (let em = emitterOff ''history:change'' HandleHistoryChanged
                 (emitterOff ''selection:geometrychange'' HandleGeometryChanged
                   (emitterOff ''selection:change'' HandleSelectionChanged (emitter s)));
          s1 = s\<lparr>emitter := em\<rparr>
      in case container s1 of
           None \<Rightarrow> s1
         | Some c \<Rightarrow> s1\<lparr>container := Some (c\<lparr>inDocument := False\<rparr>), trace := trace s1 @ [OpRemove]\<rparr>)"

text \<open>
  The plugin's reaction to an emission on the bus: it has no listener for
  \<open>options:change\<close>, and its listeners take \<open>next\<close> of a selection change, \<open>target\<close>
  of a geometry change and nothing of a history change. \<open>run\<close> feeds it a sequence of
  emissions, each with the state of the browser at that moment.
\<close>

definition dispatch ::
  "('e, 'v) utils \<Rightarrow> 'e dom \<Rightarrow> ('e, 'v) EditBar \<Rightarrow> ('e, 'w) busEvent \<Rightarrow> ('e, 'v) EditBar" where
  "dispatch U D s ev =
     (case ev of
        OptionsChange changes \<Rightarrow> s
      | SelectionChange previous nxt added removed \<Rightarrow> handleSelectionChanged U D s nxt
      | SelectionGeometryChange target \<Rightarrow> handleGeometryChanged U D s target
      | HistoryChange action \<Rightarrow> handleHistoryChanged U D s)"

fun run ::
  "('e, 'v) utils \<Rightarrow> ('e, 'v) EditBar \<Rightarrow> (('e, 'w) busEvent \<times> 'e dom) list \<Rightarrow> ('e, 'v) EditBar" where
  "run U s [] = s"
| "run U s ((ev, D) # evs) = run U (dispatch U D s ev) evs"

definition isVisible :: "('e, 'v) EditBar \<Rightarrow> bool" where
  "isVisible s = (case container s of None \<Rightarrow> False | Some c \<Rightarrow> styleVisibility c = Visible)"

section \<open>The Infographic runtime\<close>

text \<open>
  \<open>InfographicOptions\<close>: the fields that the runtime itself reads, and the rest. A
  callback prop is named by a number.
\<close>

record 'x InfographicOptions =
  editable :: bool
  onChange :: "nat option"
  onSelectionChange :: "nat option"
  onHistoryChange :: "nat option"
  onGeometryChange :: "nat option"
  otherOptions :: 'x

record 'y ParsedInfographicOptions =
  hostContainer :: "nat option"
  otherParsed :: 'y

text \<open>\<open>IEditor\<close>: what its three queries answer at the moment.\<close>

record IEditor =
  canUndo :: bool
  canRedo :: bool
  getHistorySize :: nat

datatype changeType = Move | Resize

text \<open>
  The payloads of the public events: \<open>{operation, path, value, options}\<close>,
  \<open>{selection, added, removed}\<close>, \<open>{action, canUndo, canRedo, historySize}\<close>,
  \<open>{target, changeType}\<close>, \<open>{node, options}\<close>, an \<open>Error\<close> with its message, and the
  lists of syntax errors and warnings.
\<close>

datatype ('e, 'w, 'x, 'n) payload =
    InfographicChangeEvent changeOp string 'w "'x InfographicOptions"
  | InfographicSelectionChangeEvent "'e list" "'e list" "'e list"
  | InfographicHistoryChangeEvent historyAction bool bool nat
  | InfographicGeometryChangeEvent 'e changeType
  | InfographicRenderedEvent 'n "'x InfographicOptions"
  | Error string
  | SyntaxErrors "string list"
  | Warnings "string list"

text \<open>
  What the runtime does towards its consumers: \<open>emitter.emit(name, payload)\<close>, the
  call of a callback prop, and \<open>editor.destroy()\<close>.
\<close>

datatype ('e, 'w, 'x, 'n) effect =
    Emit string "('e, 'w, 'x, 'n) payload"
  | Invoke nat "('e, 'w, 'x, 'n) payload"
  | EditorDestroy

text \<open>
  The functions and constants that \<open>Infographic.tsx\<close> imports and that are not
  part of the sources at hand. \<open>parseSyntax\<close> yields options, errors and warnings;
  \<open>composeTemplate\<close> is \<open>renderSVG\<close> followed by \<open>parseSVG\<close>, \<open>None\<close> when the latter
  yields no template; \<open>rendererRender\<close> is \<open>new Renderer(parsedOptions, template).render()\<close>;
  \<open>newEditor\<close> is \<open>new Editor(emitter, node, parsedOptions)\<close>.
\<close>

record ('x, 'y, 'n) deps =
  parseSyntax :: "string \<Rightarrow> 'x InfographicOptions \<times> string list \<times> string list"
  cloneOptions :: "'x InfographicOptions \<Rightarrow> 'x InfographicOptions"
  mergeOptions :: "'x InfographicOptions \<Rightarrow> 'x InfographicOptions \<Rightarrow> 'x InfographicOptions"
  parseOptions :: "'x InfographicOptions \<Rightarrow> 'y ParsedInfographicOptions"
  DEFAULT_OPTIONS :: "'x InfographicOptions"
  isCompleteParsedInfographicOptions :: "'y ParsedInfographicOptions \<Rightarrow> bool"
  composeTemplate :: "'y ParsedInfographicOptions \<Rightarrow> 'n option"
  rendererRender :: "'y ParsedInfographicOptions \<Rightarrow> 'n \<Rightarrow> 'n"
  newEditor :: "'n \<Rightarrow> 'y ParsedInfographicOptions \<Rightarrow> IEditor"

text \<open>
  A constructed \<open>Infographic\<close>. The constructor assigns \<open>options\<close> and
  \<open>parsedOptions\<close>, so both are defined. \<open>hostChildren\<close> gives the children of each
  DOM element that can host the graphic, \<open>emitted\<close> what the instance has emitted and
  called so far, \<open>bridges\<close> how often \<open>setupEditorEventBridge\<close> has registered its
  four listeners.
\<close>

record ('e, 'w, 'x, 'y, 'n) Infographic =
  rendered :: bool
  svgNode :: "'n option"
  editor :: "IEditor option"
  initialOptions :: "'x InfographicOptions"
  currentOptions :: "'x InfographicOptions"
  parsedOptions :: "'y ParsedInfographicOptions"
  hostChildren :: "nat \<Rightarrow> 'n list"
  emitted :: "('e, 'w, 'x, 'n) effect list"
  bridges :: nat

datatype 'x optionsInput = Syntax string | Object "'x InfographicOptions"

datatype mode = Replace | Merge

definition parseSyntaxOptions ::
  "('x, 'y, 'n) deps \<Rightarrow> 'x optionsInput \<Rightarrow> 'x InfographicOptions \<times> string list \<times> string list" where
  "parseSyntaxOptions P input =
     (case input of
        Syntax str \<Rightarrow> parseSyntax P str
      | Object ob \<Rightarrow> (cloneOptions P ob, [], []))"

definition emits ::
  "('e, 'w, 'x, 'y, 'n) Infographic \<Rightarrow> ('e, 'w, 'x, 'n) effect list \<Rightarrow>
   ('e, 'w, 'x, 'y, 'n) Infographic" where
  "emits st outs = st\<lparr>emitted := emitted st @ outs\<rparr>"

definition setOptions ::
  "('x, 'y, 'n) deps \<Rightarrow> ('e, 'w, 'x, 'y, 'n) Infographic \<Rightarrow> 'x optionsInput \<Rightarrow> mode \<Rightarrow> bool \<Rightarrow>
   ('e, 'w, 'x, 'y, 'n) Infographic" where
  "setOptions P st0 input md isInitial =
     (case parseSyntaxOptions P input of
        (parsed, errors, warnings) \<Rightarrow>
          (let st1 = (if isInitial then st0\<lparr>initialOptions := parsed\<rparr> else st0);
               base =
                 (case md of
                    Replace \<Rightarrow> mergeOptions P (cloneOptions P (initialOptions st1)) parsed
                  | Merge \<Rightarrow> mergeOptions P (currentOptions st1) parsed);
               st2 = st1\<lparr>currentOptions := base,
                          parsedOptions := parseOptions P (mergeOptions P (DEFAULT_OPTIONS P) base)\<rparr>;
               st3 = (if length warnings \<noteq> 0 then emits st2 [Emit ''warning'' (Warnings warnings)]
                      else st2)
           in if length errors \<noteq> 0 then emits st3 [Emit ''error'' (SyntaxErrors errors)]
              else st3))"

text \<open>
  \<open>performRender\<close>. \<open>Inl\<close> is a thrown error with its message; otherwise the result
  is what the method returns (\<open>true\<close>, or nothing) and the instance afterwards. The
  \<open>loaded\<close> event, which is emitted later from a promise, is not part of it.
\<close>

definition performRender ::
  "('x, 'y, 'n) deps \<Rightarrow> ('e, 'w, 'x, 'y, 'n) Infographic \<Rightarrow>
   string + bool \<times> ('e, 'w, 'x, 'y, 'n) Infographic" where
  "performRender P st =
     (let parsed = parsedOptions st in
      if \<not> isCompleteParsedInfographicOptions P parsed then
        Inr (False, emits st [Emit ''error'' (Error ''Incomplete options'')])
      else
        case composeTemplate P parsed of
          None \<Rightarrow> Inl ''Failed to parse SVG template''
        | Some template \<Rightarrow>
            (let nd = rendererRender P parsed template;
                 st1 = st\<lparr>svgNode := Some nd\<rparr>;
                 st2 = (case hostContainer parsed of
                          None \<Rightarrow> st1
                        | Some c \<Rightarrow> st1\<lparr>hostChildren := (hostChildren st1)(c := [nd])\<rparr>);
                 st3 = (case editor st2 of
                          None \<Rightarrow> st2
                        | Some ed \<Rightarrow> emits st2 [EditorDestroy]);
                 st4 = st3\<lparr>editor := None\<rparr>;
                 st5 = (if editable (currentOptions st4)
                        then st4\<lparr>editor := Some (newEditor P nd parsed), bridges := Suc (bridges st4)\<rparr>
                        else st4);
                 st6 = st5\<lparr>rendered := True\<rparr>
             in Inr (True,
                  emits st6 [Emit ''rendered'' (InfographicRenderedEvent nd (currentOptions st6))])))"

text \<open>
  \<open>render(options?)\<close>: an absent argument and the empty string are falsy. The second
  branch, \<open>!this.options && this.initialOptions\<close>, cannot be taken by a constructed
  instance. \<open>update(options)\<close> merges.
\<close>

definition truthyInput :: "'x optionsInput option \<Rightarrow> bool" where
  "truthyInput arg = (case arg of None \<Rightarrow> False | Some (Syntax str) \<Rightarrow> str \<noteq> [] | Some (Object ob) \<Rightarrow> True)"

definition renderInfographic ::
  "('x, 'y, 'n) deps \<Rightarrow> ('e, 'w, 'x, 'y, 'n) Infographic \<Rightarrow> 'x optionsInput option \<Rightarrow>
   string + bool \<times> ('e, 'w, 'x, 'y, 'n) Infographic" where
  "renderInfographic P st arg =
     (case arg of
        None \<Rightarrow> performRender P st
      | Some input \<Rightarrow>
          if truthyInput arg then performRender P (setOptions P st input Replace False)
          else performRender P st)"

definition update ::
  "('x, 'y, 'n) deps \<Rightarrow> ('e, 'w, 'x, 'y, 'n) Infographic \<Rightarrow> 'x optionsInput \<Rightarrow>
   string + bool \<times> ('e, 'w, 'x, 'y, 'n) Infographic" where
  "update P st input = performRender P (setOptions P st input Merge False)"

section \<open>The bridge from internal to public events\<close>

text \<open>
  The four listeners that \<open>setupEditorEventBridge\<close> registers: what one of them emits
  and calls, in order, when the bus emits its event.
\<close>

definition withCallback ::
  "nat option \<Rightarrow> ('e, 'w, 'x, 'n) payload \<Rightarrow> ('e, 'w, 'x, 'n) effect list" where
  "withCallback cb publicEvent = (case cb of None \<Rightarrow> [] | Some f \<Rightarrow> [Invoke f publicEvent])"

definition bridgeOptionsChange ::
  "('e, 'w, 'x, 'y, 'n) Infographic \<Rightarrow> 'w ChangeRecord list \<Rightarrow> ('e, 'w, 'x, 'n) effect list" where
  "bridgeOptionsChange st changes =
     (case changes of
        [] \<Rightarrow> []
      | change # _ \<Rightarrow>
          (let publicEvent =
                 InfographicChangeEvent (op change) (path change) (newValue change)
                   (currentOptions st)
           in Emit ''change'' publicEvent # withCallback (onChange (currentOptions st)) publicEvent))"

definition bridgeSelectionChange ::
  "('e, 'w, 'x, 'y, 'n) Infographic \<Rightarrow> 'e list \<Rightarrow> 'e list \<Rightarrow> 'e list \<Rightarrow>
   ('e, 'w, 'x, 'n) effect list" where
  "bridgeSelectionChange st nxt added removed =
     (let publicEvent = InfographicSelectionChangeEvent nxt added removed
      in Emit ''selectionChange'' publicEvent
         # withCallback (onSelectionChange (currentOptions st)) publicEvent)"

definition bridgeHistoryChange ::
  "('e, 'w, 'x, 'y, 'n) Infographic \<Rightarrow> historyAction \<Rightarrow> ('e, 'w, 'x, 'n) effect list" where
  "bridgeHistoryChange st action =
     (let publicEvent =
            InfographicHistoryChangeEvent action
              (case editor st of None \<Rightarrow> False | Some ed \<Rightarrow> canUndo ed)
              (case editor st of None \<Rightarrow> False | Some ed \<Rightarrow> canRedo ed)
              (case editor st of None \<Rightarrow> 0 | Some ed \<Rightarrow> getHistorySize ed)
      in Emit ''historyChange'' publicEvent
         # withCallback (onHistoryChange (currentOptions st)) publicEvent)"

definition bridgeGeometryChange ::
  "('e, 'w, 'x, 'y, 'n) Infographic \<Rightarrow> 'e \<Rightarrow> ('e, 'w, 'x, 'n) effect list" where
  "bridgeGeometryChange st target =
     (let publicEvent = InfographicGeometryChangeEvent target Move
      in Emit ''geometryChange'' publicEvent
         # withCallback (onGeometryChange (currentOptions st)) publicEvent)"

definition bridge ::
  "('e, 'w, 'x, 'y, 'n) Infographic \<Rightarrow> ('e, 'w) busEvent \<Rightarrow> ('e, 'w, 'x, 'n) effect list" where
  "bridge st ev =
     (case ev of
        OptionsChange changes \<Rightarrow> bridgeOptionsChange st changes
      | SelectionChange previous nxt added removed \<Rightarrow> bridgeSelectionChange st nxt added removed
      | SelectionGeometryChange target \<Rightarrow> bridgeGeometryChange st target
      | HistoryChange action \<Rightarrow> bridgeHistoryChange st action)"

text \<open>The internal name of a bus event.\<close>

definition internalName :: "('e, 'w) busEvent \<Rightarrow> string" where
  "internalName ev =
     (case ev of
        OptionsChange changes \<Rightarrow> ''options:change''
      | SelectionChange previous nxt added removed \<Rightarrow> ''selection:change''
      | SelectionGeometryChange target \<Rightarrow> ''selection:geometrychange''
      | HistoryChange action \<Rightarrow> ''history:change'')"

section \<open>Notions used to state the properties\<close>

text \<open>
  The items that one optional stage of custom factories contributes: none when the
  stage is not configured.
\<close>

definition stageItems ::
  "('e, 'v) CustomEditItem list option \<Rightarrow> ('e, 'v) EditBarContext \<Rightarrow> ('e, 'v) node list" where
  "stageItems stage ctx = (case stage of None \<Rightarrow> [] | Some fs \<Rightarrow> renderCustomItems fs ctx)"

definition itemConfigOf ::
  "('e, 'v) EditBarOptions option \<Rightarrow> ('e, 'v) EditBarItemConfig option" where
  "itemConfigOf opts = (case opts of None \<Rightarrow> None | Some ob \<Rightarrow> items ob)"

definition stageOf ::
  "('e, 'v) EditBarOptions option \<Rightarrow>
   (('e, 'v) EditBarItemConfig \<Rightarrow> ('e, 'v) CustomEditItem list option) \<Rightarrow>
   ('e, 'v) CustomEditItem list option" where
  "stageOf opts field = (case itemConfigOf opts of None \<Rightarrow> None | Some ic \<Rightarrow> field ic)"

definition defaultsEnabled :: "('e, 'v) EditBarOptions option \<Rightarrow> bool" where
  "defaultsEnabled opts =
     (case opts of
        None \<Rightarrow> True
      | Some ob \<Rightarrow> (case includeDefaults ob of None \<Rightarrow> True | Some b \<Rightarrow> b))"

text \<open>The React roots that the elements of a list still have to unmount.\<close>

definition pendingRoots :: "('e, 'v) node list \<Rightarrow> nat list" where
  "pendingRoots ns = concat (map (\<lambda>n. snd (cleanupReactEditBar n)) ns)"

definition childrenOf :: "('e, 'v) EditBar \<Rightarrow> ('e, 'v) node list" where
  "childrenOf s = (case container s of None \<Rightarrow> [] | Some c \<Rightarrow> children c)"

section \<open>A small document for the examples\<close>

text \<open>
  Two texts with font sizes 14 and 16 and the same colour, an icon, two shapes with
  the same fill whichever reader is asked, and an element that is both an icon and
  a shape.
\<close>

datatype exElement = TextA | TextB | IconB | GeomA | GeomB | IconShape

datatype jsValue = JNum int | JStr string

text \<open>
  Modelled from the spec: \<open>getCombinedBounds\<close> of \<open>jsx\<close> is missing from the sources;
  the spec has it the union bounding box of the rectangles.
\<close>

fun unionBounds :: "rect list \<Rightarrow> rect" where
  "unionBounds [] = \<lparr>rectX = 0, rectY = 0, rectWidth = 0, rectHeight = 0\<rparr>"
| "unionBounds (r # rs) =
     (let l = foldl min (rectX r) (map rectX rs);
          t = foldl min (rectY r) (map rectY rs);
          rt = foldl max (rectX r + rectWidth r) (map (\<lambda>q. rectX q + rectWidth q) rs);
          b = foldl max (rectY r + rectHeight r) (map (\<lambda>q. rectY q + rectHeight q) rs)
      in \<lparr>rectX = l, rectY = t, rectWidth = rt - l, rectHeight = b - t\<rparr>)"

definition exUtils :: "(exElement, jsValue) utils" where
  "exUtils =
     \<lparr>isEditableText = (\<lambda>e. e = TextA \<or> e = TextB),
      isIconElement = (\<lambda>e. e = IconB \<or> e = IconShape),
      isGeometryElement = (\<lambda>e. e = GeomA \<or> e = GeomB \<or> e = IconShape),
      getTextAttributes =
        (\<lambda>e. if e = TextA then Some [''font-size'' \<mapsto> JNum 14, ''color'' \<mapsto> JStr ''#000'']
             else if e = TextB then Some [''font-size'' \<mapsto> JNum 16, ''color'' \<mapsto> JStr ''#000'']
             else if e = GeomA \<or> e = GeomB then Some [''fill'' \<mapsto> JStr ''#000'']
             else None),
      getIconAttrs =
        (\<lambda>e. if e = IconB \<or> e = GeomA \<or> e = GeomB then [''fill'' \<mapsto> JStr ''#000'']
             else Map.empty),
      getCombinedBounds = unionBounds\<rparr>"

text \<open>
  The browser of the placement example: every element at
  \<open>{x: 100, y: 50, width: 40, height: 20}\<close>, a toolbar of 60 by 30, a viewport of
  \<open>vw\<close> by 200 that hosts the toolbar, nothing scrolled.
\<close>

definition exDom :: "real \<Rightarrow> exElement dom" where
  "exDom vw =
     \<lparr>elementRect = (\<lambda>e. \<lparr>rectX = 100, rectY = 50, rectWidth = 40, rectHeight = 20\<rparr>),
      containerRect = \<lparr>rectX = 0, rectY = 0, rectWidth = 60, rectHeight = 30\<rparr>,
      containerOffsetParent = Body,
      clientHeight = 200,
      clientWidth = vw,
      windowScrollX = 0,
      windowScrollY = 0,
      scrollLeft = 0,
      scrollTop = 0\<rparr>"

text \<open>
  Options with a full renderer in the manner of \<open>createReactEditBar\<close>: it always
  returns an element that owns a React root. Options with a filter that accepts the
  selection of \<open>TextA\<close> alone.
\<close>

definition reactOptions :: "(exElement, jsValue) EditBarOptions" where
  "reactOptions =
     \<lparr>render = Some (\<lambda>ctx. Some (Custom 1 (Some 7))), items = None, includeDefaults = None,
      filterSelection = None\<rparr>"

definition filterOptions :: "(exElement, jsValue) EditBarOptions" where
  "filterOptions =
     \<lparr>render = None, items = None, includeDefaults = None,
      filterSelection = Some (\<lambda>sel. sel = [TextA])\<rparr>"

definition itemOptions :: "(exElement, jsValue) EditBarOptions" where
  "itemOptions =
     \<lparr>render = None,
      items = Some \<lparr>cfgText = Some [\<lambda>ctx. Some (Custom 2 None), \<lambda>ctx. None],
                    cfgIcon = None, cfgGeometry = None, cfgMixed = None,
                    cfgPrepend = Some [\<lambda>ctx. Some (Custom 1 None)],
                    cfgAppend = Some [\<lambda>ctx. Some (Custom 3 None)]\<rparr>,
      includeDefaults = Some False,
      filterSelection = None\<rparr>"

definition selectionChange :: "exElement list \<Rightarrow> (exElement, jsValue) busEvent \<times> exElement dom" where
  "selectionChange nxt = (SelectionChange [] nxt nxt [], exDom 300)"

definition historyChange :: "(exElement, jsValue) busEvent \<times> exElement dom" where
  "historyChange = (HistoryChange Execute, exDom 300)"

text \<open>An editable instance of the runtime with an editor and an \<open>onChange\<close> prop.\<close>

definition exOptions :: "unit InfographicOptions" where
  "exOptions =
     \<lparr>editable = True, onChange = Some 1, onSelectionChange = None, onHistoryChange = Some 3,
      onGeometryChange = None, otherOptions = ()\<rparr>"

definition exInfographic :: "(exElement, jsValue, unit, bool, nat) Infographic" where
  "exInfographic =
     \<lparr>rendered = True, svgNode = Some 5,
      editor = Some \<lparr>canUndo = True, canRedo = False, getHistorySize = 2\<rparr>,
      initialOptions = exOptions, currentOptions = exOptions,
      parsedOptions = \<lparr>hostContainer = Some 0, otherParsed = True\<rparr>,
      hostChildren = (\<lambda>c. if c = 0 then [5] else []),
      emitted = [], bridges = 1\<rparr>"

text \<open>
  Dependencies for the examples: parsed options are complete when their flag says so,
  and parsing the syntax \<open>''broken''\<close> or merging in options that are not editable
  yields incomplete ones.
\<close>

definition exDeps :: "(unit, bool, nat) deps" where
  "exDeps =
     \<lparr>parseSyntax = (\<lambda>str. (exOptions\<lparr>editable := False\<rparr>, [], [])),
      cloneOptions = (\<lambda>ob. ob),
      mergeOptions = (\<lambda>a b. b),
      parseOptions = (\<lambda>ob. \<lparr>hostContainer = Some 0, otherParsed = editable ob\<rparr>),
      DEFAULT_OPTIONS = exOptions,
      isCompleteParsedInfographicOptions = otherParsed,
      composeTemplate = (\<lambda>p. Some 8),
      rendererRender = (\<lambda>p t. Suc t),
      newEditor = (\<lambda>n p. \<lparr>canUndo = False, canRedo = False, getHistorySize = 0\<rparr>)\<rparr>"

text \<open>
  Options whose only items are a custom control for text selections that owns a
  React root.
\<close>

definition reactItemOptions :: "(exElement, jsValue) EditBarOptions" where
  "reactItemOptions =
     \<lparr>render = None,
      items = Some \<lparr>cfgText = Some [\<lambda>ctx. Some (Custom 4 (Some 9))],
                    cfgIcon = None, cfgGeometry = None, cfgMixed = None,
                    cfgPrepend = None, cfgAppend = None\<rparr>,
      includeDefaults = Some False,
      filterSelection = None\<rparr>"

text \<open>A plugin without options whose container has been created.\<close>

definition exBar :: "(exElement, jsValue) EditBar" where
  "exBar = getOrCreateEditBar (newEditBar None [])"

section \<open>Selection classification: what \<open>getSelectionType\<close> computes\<close>

text \<open>
  Once all three flags are set a probe changes nothing, so the loop with its \<open>break\<close>
  computes the same flags as a plain fold over the whole selection.
\<close>

lemma probeItem_allFlags: "allFlags f \<Longrightarrow> probeItem U item f = f"
  by (simp add: probeItem_def allFlags_def)

lemma probeLoop_fst: "fst (probeLoop U xs f n) = foldl (\<lambda>g item. probeItem U item g) f xs"
proof (induction xs arbitrary: f n)
  case Nil
  then show ?case by simp
next
  case (Cons item rest)
  have stay: "allFlags g \<Longrightarrow> foldl (\<lambda>g item. probeItem U item g) g ys = g" for g ys
    by (induction ys) (simp_all add: probeItem_allFlags)
  show ?case
    using Cons.IH by (simp add: Let_def stay)
qed

lemma fold_hasText:
  "hasText (foldl (\<lambda>g item. probeItem U item g) f xs) =
     (hasText f \<or> (\<exists>e\<in>set xs. observed U e = Some CapText))"
  by (induction xs arbitrary: f) (auto simp: probeItem_def observed_def)

lemma fold_hasIcon:
  "hasIcon (foldl (\<lambda>g item. probeItem U item g) f xs) =
     (hasIcon f \<or> (\<exists>e\<in>set xs. observed U e = Some CapIcon))"
  by (induction xs arbitrary: f) (auto simp: probeItem_def observed_def)

lemma fold_hasGeometry:
  "hasGeometry (foldl (\<lambda>g item. probeItem U item g) f xs) =
     (hasGeometry f \<or> (\<exists>e\<in>set xs. observed U e = Some CapGeometry))"
  by (induction xs arbitrary: f) (auto simp: probeItem_def observed_def)

lemma flags_of_selection:
  "hasText (fst (probeLoop U sel noFlags 0)) = (\<exists>e\<in>set sel. observed U e = Some CapText)"
  "hasIcon (fst (probeLoop U sel noFlags 0)) = (\<exists>e\<in>set sel. observed U e = Some CapIcon)"
  "hasGeometry (fst (probeLoop U sel noFlags 0)) = (\<exists>e\<in>set sel. observed U e = Some CapGeometry)"
  by (simp_all add: probeLoop_fst fold_hasText fold_hasIcon fold_hasGeometry noFlags_def)

lemma getSelectionType_observed:
  "getSelectionType U sel = typeOfCapability c \<longleftrightarrow>
     (\<exists>e\<in>set sel. observed U e = Some c) \<and> (\<forall>e\<in>set sel. \<forall>d. observed U e = Some d \<longrightarrow> d = c)"
proof -
  have only: "(\<forall>e\<in>set sel. \<forall>d. observed U e = Some d \<longrightarrow> d = c) \<longleftrightarrow>
      (\<forall>d. d \<noteq> c \<longrightarrow> \<not> (\<exists>e\<in>set sel. observed U e = Some d))"
    by blast
  have all3: "(\<forall>d. P d) \<longleftrightarrow> P CapText \<and> P CapIcon \<and> P CapGeometry" for P
    by (metis capability.exhaust)
  show ?thesis
    unfolding only all3
    unfolding getSelectionType_def classify_def flags_of_selection typeOfCapability_def
    by (cases c) auto
qed

lemma getSelectionType_mixed:
  "getSelectionType U sel = SelMixed \<longleftrightarrow>
     \<not> (\<exists>c. (\<exists>e\<in>set sel. observed U e = Some c) \<and> (\<forall>e\<in>set sel. \<forall>d. observed U e = Some d \<longrightarrow> d = c))"
proof -
  have "getSelectionType U sel = SelMixed \<longleftrightarrow> (\<forall>c. getSelectionType U sel \<noteq> typeOfCapability c)"
    by (cases "getSelectionType U sel") (auto simp: typeOfCapability_def split: capability.splits)
  then show ?thesis by (simp add: getSelectionType_observed)
qed

lemma probeLoop_short:
  "\<not> allFlags f \<Longrightarrow> allFlags (fst (probeLoop U xs f n)) \<Longrightarrow>
   probeLoop U (xs @ ys) f n = probeLoop U xs f n"
  by (induction xs arbitrary: f n) (auto simp: Let_def)

lemma probeLoop_count: "snd (probeLoop U xs f n) \<le> n + length xs"
proof (induction xs arbitrary: f n)
  case Nil
  then show ?case by simp
next
  case (Cons a xs)
  show ?case
    using Cons.IH [of "probeItem U a f" "Suc n"] by (simp add: Let_def)
qed

lemma observed_exclusive:
  assumes "\<forall>c d. hasCapability U c e \<and> hasCapability U d e \<longrightarrow> c = d"
  shows "(observed U e = Some c) = hasCapability U c e"
proof -
  have "\<not> (isEditableText U e \<and> isIconElement U e)"
    "\<not> (isEditableText U e \<and> isGeometryElement U e)"
    "\<not> (isIconElement U e \<and> isGeometryElement U e)"
    using assms [rule_format, of CapText CapIcon] assms [rule_format, of CapText CapGeometry]
      assms [rule_format, of CapIcon CapGeometry]
    by (auto simp: hasCapability_def)
  then show ?thesis
    by (cases c) (auto simp: observed_def hasCapability_def)
qed


text \<open>
  C2, as amended. An element is observed with the first capability it has in the
  order editable-text, icon, geometry. \<open>getSelectionType\<close> answers \<open>text\<close>, \<open>icon\<close> or
  \<open>geometry\<close> exactly when that capability is observed on some selected element and
  no other capability is observed on any, and \<open>mixed\<close> otherwise. Where no selected
  element has two capabilities, this is: exactly when that capability is the only one
  present. Once the three flags have been seen after a prefix of the selection, the
  elements after it are not probed: their number and the answer \<open>mixed\<close> do not depend
  on them. One editable text is \<open>text\<close>; an editable text and an icon that is not an
  editable text are \<open>mixed\<close>.
\<close>

theorem getSelectionType_observed_capability:
  "(getSelectionType U sel = typeOfCapability c \<longleftrightarrow>
      (\<exists>e\<in>set sel. observed U e = Some c) \<and>
      (\<forall>e\<in>set sel. \<forall>d. observed U e = Some d \<longrightarrow> d = c))
   \<and> (getSelectionType U sel = SelMixed \<longleftrightarrow>
      \<not> (\<exists>c'. (\<exists>e\<in>set sel. observed U e = Some c') \<and>
                (\<forall>e\<in>set sel. \<forall>d. observed U e = Some d \<longrightarrow> d = c')))
   \<and> ((\<forall>e\<in>set sel. \<forall>c' d. hasCapability U c' e \<and> hasCapability U d e \<longrightarrow> c' = d) \<longrightarrow>
      (getSelectionType U sel = typeOfCapability c \<longleftrightarrow>
         (\<exists>e\<in>set sel. hasCapability U c e) \<and>
         (\<forall>e\<in>set sel. \<forall>d. hasCapability U d e \<longrightarrow> d = c)))
   \<and> (allFlags (fst (probeLoop U xs noFlags 0)) \<longrightarrow>
      probedCount U (xs @ ys) = probedCount U xs \<and> probedCount U xs \<le> length xs \<and>
      getSelectionType U (xs @ ys) = SelMixed)
   \<and> (isEditableText U a \<longrightarrow> getSelectionType U [a] = SelText)
   \<and> (isEditableText U a \<and> \<not> isEditableText U b \<and> isIconElement U b \<longrightarrow>
      getSelectionType U [a, b] = SelMixed)"
proof (intro conjI impI)
  show "getSelectionType U sel = typeOfCapability c \<longleftrightarrow>
      (\<exists>e\<in>set sel. observed U e = Some c) \<and>
      (\<forall>e\<in>set sel. \<forall>d. observed U e = Some d \<longrightarrow> d = c)"
    by (rule getSelectionType_observed)
  show "getSelectionType U sel = SelMixed \<longleftrightarrow>
      \<not> (\<exists>c'. (\<exists>e\<in>set sel. observed U e = Some c') \<and>
                (\<forall>e\<in>set sel. \<forall>d. observed U e = Some d \<longrightarrow> d = c'))"
    by (rule getSelectionType_mixed)
next
  assume ex: "\<forall>e\<in>set sel. \<forall>c' d. hasCapability U c' e \<and> hasCapability U d e \<longrightarrow> c' = d"
  have "(observed U e = Some d) = hasCapability U d e" if "e \<in> set sel" for e d
    using ex that by (intro observed_exclusive) blast
  then show "getSelectionType U sel = typeOfCapability c \<longleftrightarrow>
         (\<exists>e\<in>set sel. hasCapability U c e) \<and>
         (\<forall>e\<in>set sel. \<forall>d. hasCapability U d e \<longrightarrow> d = c)"
    by (simp add: getSelectionType_observed)
next
  assume all: "allFlags (fst (probeLoop U xs noFlags 0))"
  have start: "\<not> allFlags noFlags"
    by (simp add: allFlags_def noFlags_def)
  have same: "probeLoop U (xs @ ys) noFlags 0 = probeLoop U xs noFlags 0"
    using start all by (rule probeLoop_short)
  show "probedCount U (xs @ ys) = probedCount U xs"
    by (simp add: probedCount_def same)
  show "probedCount U xs \<le> length xs"
    using probeLoop_count [of U xs noFlags 0] by (simp add: probedCount_def)
  show "getSelectionType U (xs @ ys) = SelMixed"
    using all by (simp add: getSelectionType_def same classify_def allFlags_def)
next
  assume "isEditableText U a"
  then show "getSelectionType U [a] = SelText"
    by (simp add: getSelectionType_def classify_def probeItem_def noFlags_def allFlags_def)
next
  assume "isEditableText U a \<and> \<not> isEditableText U b \<and> isIconElement U b"
  then show "getSelectionType U [a, b] = SelMixed"
    by (simp add: getSelectionType_def classify_def probeItem_def noFlags_def allFlags_def)
qed

text \<open>The example document, ready for evaluation.\<close>

lemma exUtils_simps [simp]:
  "isEditableText exUtils e = (e = TextA \<or> e = TextB)"
  "isIconElement exUtils e = (e = IconB \<or> e = IconShape)"
  "isGeometryElement exUtils e = (e = GeomA \<or> e = GeomB \<or> e = IconShape)"
  "getCombinedBounds exUtils = unionBounds"
  by (simp_all add: exUtils_def)

text \<open>
  The theorem on the example document: two texts, a text alone, a text with an icon,
  and a selection whose first three elements show all three capabilities.
\<close>

theorem getSelectionType_observed_capability_witness:
  "getSelectionType exUtils [TextA, TextB] = SelText
   \<and> getSelectionType exUtils [TextA] = SelText
   \<and> getSelectionType exUtils [TextA, IconB] = SelMixed
   \<and> probedCount exUtils ([TextA, IconB, GeomA] @ [TextB, GeomB]) = 3"
proof -
  have excl: "\<forall>e\<in>set [TextA, TextB]. \<forall>c' d.
      hasCapability exUtils c' e \<and> hasCapability exUtils d e \<longrightarrow> c' = d"
    by (auto simp: hasCapability_def split: capability.splits)
  have full: "allFlags (fst (probeLoop exUtils [TextA, IconB, GeomA] noFlags 0))"
    by (simp add: allFlags_def probeItem_def noFlags_def)
  have cnt: "probedCount exUtils [TextA, IconB, GeomA] = 3"
    by (simp add: probedCount_def allFlags_def probeItem_def noFlags_def)
  have caps: "(\<exists>e\<in>set [TextA, TextB]. hasCapability exUtils CapText e) \<and>
         (\<forall>e\<in>set [TextA, TextB]. \<forall>d. hasCapability exUtils d e \<longrightarrow> d = CapText)"
    by (auto simp: hasCapability_def split: capability.splits)
  show ?thesis
    using getSelectionType_observed_capability
      [of exUtils "[TextA, TextB]" CapText "[TextA, IconB, GeomA]" "[TextB, GeomB]" TextA IconB]
      excl full cnt caps
    by (simp add: typeOfCapability_def)
qed

text \<open>
  C2 as stated fails: a selection of one element that is both an icon and a shape is
  classified \<open>icon\<close>, although the geometry capability is present in it.
\<close>

theorem getSelectionType_first_capability_wins:
  "getSelectionType exUtils [IconShape] = SelIcon
   \<and> isIconElement exUtils IconShape \<and> isGeometryElement exUtils IconShape"
  by (simp add: getSelectionType_def classify_def probeItem_def noFlags_def allFlags_def)

section \<open>Merged attributes: what \<open>getSelectionAttributes\<close> computes\<close>

lemma getCommonAttrs_Some:
  "as \<noteq> [] \<Longrightarrow> getCommonAttrs as k = Some v \<longleftrightarrow> (\<forall>a\<in>set as. a k = Some v)"
  by (cases as) (auto simp: getCommonAttrs_def list_all_iff split: option.splits)

lemma getSelectionType_Nil: "getSelectionType U [] = SelMixed"
  by (simp add: getSelectionType_def classify_def noFlags_def)

lemma merged_text:
  assumes "getSelectionType U sel = SelText"
  shows "getSelectionAttributes U sel k = Some v \<longleftrightarrow> (\<forall>e\<in>set sel. textAttrs U e k = Some v)"
proof (cases sel)
  case Nil
  with assms show ?thesis by (simp add: getSelectionType_Nil)
next
  case (Cons e rest)
  show ?thesis
  proof (cases rest)
    case Nil
    with Cons assms show ?thesis by (simp add: getSelectionAttributes_def)
  next
    case (Cons e' rest')
    with \<open>sel = e # rest\<close> assms
    have "getSelectionAttributes U sel = getCommonAttrs (map (textAttrs U) sel)"
      by (simp add: getSelectionAttributes_def)
    moreover have "map (textAttrs U) sel \<noteq> []"
      using \<open>sel = e # rest\<close> by simp
    ultimately show ?thesis
      by (simp add: getCommonAttrs_Some)
  qed
qed

lemma merged_icon:
  assumes "getSelectionType U sel = SelIcon"
  shows "getSelectionAttributes U sel k = Some v \<longleftrightarrow> (\<forall>e\<in>set sel. getIconAttrs U e k = Some v)"
proof (cases sel)
  case Nil
  with assms show ?thesis by (simp add: getSelectionType_Nil)
next
  case (Cons e rest)
  show ?thesis
  proof (cases rest)
    case Nil
    with Cons assms show ?thesis by (simp add: getSelectionAttributes_def)
  next
    case (Cons e' rest')
    with \<open>sel = e # rest\<close> assms
    have "getSelectionAttributes U sel = getCommonAttrs (map (getIconAttrs U) sel)"
      by (simp add: getSelectionAttributes_def)
    moreover have "map (getIconAttrs U) sel \<noteq> []"
      using \<open>sel = e # rest\<close> by simp
    ultimately show ?thesis
      by (simp add: getCommonAttrs_Some)
  qed
qed

lemma merged_other:
  assumes "getSelectionType U sel = SelGeometry \<or> getSelectionType U sel = SelMixed"
  shows "getSelectionAttributes U sel = Map.empty"
  using assms by (auto simp: getSelectionAttributes_def Let_def)

text \<open>
  C3, as amended. For a selection classified \<open>text\<close> (or \<open>icon\<close>), of any size and so
  of two or more elements, a key is in the merged attributes exactly when every
  selected element has one identical value for it under the text (or icon) attribute
  reader, and the merged value is that value. For a selection classified \<open>geometry\<close>
  or \<open>mixed\<close> the merged attributes are empty.
\<close>

theorem getSelectionAttributes_merged:
  "(getSelectionType U sel = SelText \<longrightarrow>
      (getSelectionAttributes U sel k = Some v \<longleftrightarrow> (\<forall>e\<in>set sel. textAttrs U e k = Some v)) \<and>
      (k \<in> dom (getSelectionAttributes U sel) \<longleftrightarrow> (\<exists>w. \<forall>e\<in>set sel. textAttrs U e k = Some w)))
   \<and> (getSelectionType U sel = SelIcon \<longrightarrow>
      (getSelectionAttributes U sel k = Some v \<longleftrightarrow> (\<forall>e\<in>set sel. getIconAttrs U e k = Some v)) \<and>
      (k \<in> dom (getSelectionAttributes U sel) \<longleftrightarrow> (\<exists>w. \<forall>e\<in>set sel. getIconAttrs U e k = Some w)))
   \<and> (getSelectionType U sel = SelGeometry \<or> getSelectionType U sel = SelMixed \<longrightarrow>
      getSelectionAttributes U sel = Map.empty)"
proof (intro conjI impI)
  assume t: "getSelectionType U sel = SelText"
  show "getSelectionAttributes U sel k = Some v \<longleftrightarrow> (\<forall>e\<in>set sel. textAttrs U e k = Some v)"
    using t by (rule merged_text)
  show "k \<in> dom (getSelectionAttributes U sel) \<longleftrightarrow> (\<exists>w. \<forall>e\<in>set sel. textAttrs U e k = Some w)"
    by (simp add: dom_def merged_text [OF t])
next
  assume t: "getSelectionType U sel = SelIcon"
  show "getSelectionAttributes U sel k = Some v \<longleftrightarrow> (\<forall>e\<in>set sel. getIconAttrs U e k = Some v)"
    using t by (rule merged_icon)
  show "k \<in> dom (getSelectionAttributes U sel) \<longleftrightarrow> (\<exists>w. \<forall>e\<in>set sel. getIconAttrs U e k = Some w)"
    by (simp add: dom_def merged_icon [OF t])
next
  assume "getSelectionType U sel = SelGeometry \<or> getSelectionType U sel = SelMixed"
  then show "getSelectionAttributes U sel = Map.empty"
    by (rule merged_other)
qed

lemma exUtils_attrs [simp]:
  "textAttrs exUtils TextA = [''font-size'' \<mapsto> JNum 14, ''color'' \<mapsto> JStr ''#000'']"
  "textAttrs exUtils TextB = [''font-size'' \<mapsto> JNum 16, ''color'' \<mapsto> JStr ''#000'']"
  "textAttrs exUtils GeomA = [''fill'' \<mapsto> JStr ''#000'']"
  "textAttrs exUtils GeomB = [''fill'' \<mapsto> JStr ''#000'']"
  "getIconAttrs exUtils GeomA = [''fill'' \<mapsto> JStr ''#000'']"
  "getIconAttrs exUtils GeomB = [''fill'' \<mapsto> JStr ''#000'']"
  by (simp_all add: exUtils_def textAttrs_def)

lemma exUtils_types [simp]:
  "getSelectionType exUtils [TextA, TextB] = SelText"
  "getSelectionType exUtils [GeomA, GeomB] = SelGeometry"
  "getSelectionType exUtils [GeomA] = SelGeometry"
  "getSelectionType exUtils [TextA] = SelText"
  by (simp_all add: getSelectionType_def classify_def probeItem_def noFlags_def allFlags_def)

text \<open>
  The theorem on the two texts of the example document: sizes 14 and 16, both
  coloured \<open>#000\<close>.
\<close>

theorem getSelectionAttributes_merged_witness:
  "getSelectionType exUtils [TextA, TextB] = SelText
   \<and> getSelectionAttributes exUtils [TextA, TextB] ''color'' = Some (JStr ''#000'')
   \<and> ''font-size'' \<notin> dom (getSelectionAttributes exUtils [TextA, TextB])"
  using getSelectionAttributes_merged [of exUtils "[TextA, TextB]" "''color''" "JStr ''#000''"]
    getSelectionAttributes_merged [of exUtils "[TextA, TextB]" "''font-size''" "JNum 14"]
  by simp

text \<open>
  C3 as stated fails for a selection of one capability type: two shapes have the
  identical value \<open>#000\<close> for \<open>fill\<close> under either attribute reader, and the merged
  attributes of their selection have no \<open>fill\<close>.
\<close>

theorem getSelectionAttributes_geometry_empty:
  "getSelectionType exUtils [GeomA, GeomB] = SelGeometry
   \<and> textAttrs exUtils GeomA ''fill'' = Some (JStr ''#000'')
   \<and> textAttrs exUtils GeomB ''fill'' = Some (JStr ''#000'')
   \<and> getIconAttrs exUtils GeomA ''fill'' = Some (JStr ''#000'')
   \<and> getIconAttrs exUtils GeomB ''fill'' = Some (JStr ''#000'')
   \<and> getSelectionAttributes exUtils [GeomA, GeomB] ''fill'' = None"
  by (simp add: getSelectionAttributes_def)

section \<open>Placement: where \<open>placeEditBar\<close> puts the toolbar\<close>

lemma clamp_bounds: "mn \<le> mx \<Longrightarrow> mn \<le> clamp value mn mx \<and> clamp value mn mx \<le> mx"
  by (simp add: clamp_def)

lemma placeEditBar_container:
  assumes "sel \<noteq> []" and "container s = Some c"
  shows "container (placeEditBar U D s sel) =
     Some (c\<lparr>styleLeft := fst (placement D (getCombinedBounds U (map (elementRect D) sel))),
              styleTop := snd (placement D (getCombinedBounds U (map (elementRect D) sel)))\<rparr>)"
  using assms by (simp add: placeEditBar_def Let_def)

lemma placement_positioned:
  assumes "containerOffsetParent D = Positioned P"
  shows "placement D B =
     (clamp (rectX B + rectWidth B / 2 - rectLeft P - rectWidth (containerRect D) / 2) 0
        (max (rectWidth P - rectWidth (containerRect D)) 0),
      clamp ((if shouldPlaceAbove D B then rectY B - rectHeight (containerRect D) - 8
              else rectY B + rectHeight B + 8) - rectTop P) 0
        (max (rectHeight P - rectHeight (containerRect D)) 0))"
  using assms by (simp add: placement_def Let_def offset_def algebra_simps)

lemma placement_root:
  assumes "\<forall>P. containerOffsetParent D \<noteq> Positioned P"
  shows "placement D B =
     (clamp (orElse (windowScrollX D) (scrollLeft D)
              + (rectX B + rectWidth B / 2 - rectWidth (containerRect D) / 2))
        (orElse (windowScrollX D) (scrollLeft D))
        (orElse (windowScrollX D) (scrollLeft D) + max (clientWidth D - rectWidth (containerRect D)) 0),
      clamp (orElse (windowScrollY D) (scrollTop D)
              + (if shouldPlaceAbove D B then rectY B - rectHeight (containerRect D) - 8
                 else rectY B + rectHeight B + 8))
        (orElse (windowScrollY D) (scrollTop D))
        (orElse (windowScrollY D) (scrollTop D) + max (clientHeight D - rectHeight (containerRect D)) 0))"
  using assms
  by (cases "containerOffsetParent D") (simp_all add: placement_def Let_def offset_def algebra_simps)

text \<open>
  C1. For a non-empty selection with combined bounds \<open>B\<close> and a toolbar measured as
  \<open>T\<close>, the toolbar goes above the selection iff \<open>B.y - 8 \<ge> T.height\<close> or
  \<open>B.y - 8 \<ge> viewportHeight - (B.y + B.height) - 8\<close>. Its vertical position is
  \<open>B.y - T.height - 8\<close> when above and \<open>B.y + B.height + 8\<close> otherwise, its horizontal
  position \<open>B.x + B.width / 2 - T.width / 2\<close>, both taken into the coordinate space
  that hosts the toolbar (shifted by the scroll offsets in the viewport, by the
  origin of the offset parent otherwise) and clamped into its extent:
  \<open>[scroll, scroll + max(viewport - T, 0)]\<close>, or \<open>[0, max(parent - T, 0)]\<close>.
\<close>

theorem placeEditBar_position:
  assumes "sel \<noteq> []" and "container s = Some c"
    and "B = getCombinedBounds U (map (elementRect D) sel)"
    and "T = containerRect D"
    and "c' = the (container (placeEditBar U D s sel))"
    and "sx = orElse (windowScrollX D) (scrollLeft D)"
    and "sy = orElse (windowScrollY D) (scrollTop D)"
  shows
    "(shouldPlaceAbove D B \<longleftrightarrow>
        rectY B - 8 \<ge> rectHeight T \<or> rectY B - 8 \<ge> clientHeight D - (rectY B + rectHeight B) - 8)
     \<and> container (placeEditBar U D s sel) = Some c'
     \<and> ((\<forall>P. containerOffsetParent D \<noteq> Positioned P) \<longrightarrow>
          styleLeft c' = clamp (sx + (rectX B + rectWidth B / 2 - rectWidth T / 2)) sx
                           (sx + max (clientWidth D - rectWidth T) 0)
          \<and> styleTop c' = clamp (sy + (if shouldPlaceAbove D B then rectY B - rectHeight T - 8
                                        else rectY B + rectHeight B + 8)) sy
                             (sy + max (clientHeight D - rectHeight T) 0)
          \<and> sx \<le> styleLeft c' \<and> styleLeft c' \<le> sx + max (clientWidth D - rectWidth T) 0
          \<and> sy \<le> styleTop c' \<and> styleTop c' \<le> sy + max (clientHeight D - rectHeight T) 0)
     \<and> (\<forall>P. containerOffsetParent D = Positioned P \<longrightarrow>
          styleLeft c' = clamp (rectX B + rectWidth B / 2 - rectLeft P - rectWidth T / 2) 0
                           (max (rectWidth P - rectWidth T) 0)
          \<and> styleTop c' = clamp ((if shouldPlaceAbove D B then rectY B - rectHeight T - 8
                                    else rectY B + rectHeight B + 8) - rectTop P) 0
                             (max (rectHeight P - rectHeight T) 0)
          \<and> 0 \<le> styleLeft c' \<and> styleLeft c' \<le> max (rectWidth P - rectWidth T) 0
          \<and> 0 \<le> styleTop c' \<and> styleTop c' \<le> max (rectHeight P - rectHeight T) 0)"
proof -
  have cont: "container (placeEditBar U D s sel) =
      Some (c\<lparr>styleLeft := fst (placement D B), styleTop := snd (placement D B)\<rparr>)"
    using assms(1,2) unfolding assms(3) by (rule placeEditBar_container)
  then have l: "styleLeft c' = fst (placement D B)" and t: "styleTop c' = snd (placement D B)"
    and some: "container (placeEditBar U D s sel) = Some c'"
    by (simp_all add: assms(5))
  have above: "shouldPlaceAbove D B \<longleftrightarrow>
        rectY B - 8 \<ge> rectHeight T \<or> rectY B - 8 \<ge> clientHeight D - (rectY B + rectHeight B) - 8"
    by (simp add: shouldPlaceAbove_def spaceAbove_def spaceBelow_def offset_def assms(4))
  have root: "styleLeft c' = clamp (sx + (rectX B + rectWidth B / 2 - rectWidth T / 2)) sx
                           (sx + max (clientWidth D - rectWidth T) 0)
          \<and> styleTop c' = clamp (sy + (if shouldPlaceAbove D B then rectY B - rectHeight T - 8
                                        else rectY B + rectHeight B + 8)) sy
                             (sy + max (clientHeight D - rectHeight T) 0)
          \<and> sx \<le> styleLeft c' \<and> styleLeft c' \<le> sx + max (clientWidth D - rectWidth T) 0
          \<and> sy \<le> styleTop c' \<and> styleTop c' \<le> sy + max (clientHeight D - rectHeight T) 0"
    if "\<forall>P. containerOffsetParent D \<noteq> Positioned P"
  proof -
    have eqs: "styleLeft c' = clamp (sx + (rectX B + rectWidth B / 2 - rectWidth T / 2)) sx
                           (sx + max (clientWidth D - rectWidth T) 0)"
      "styleTop c' = clamp (sy + (if shouldPlaceAbove D B then rectY B - rectHeight T - 8
                                        else rectY B + rectHeight B + 8)) sy
                             (sy + max (clientHeight D - rectHeight T) 0)"
      unfolding l t placement_root [OF that] assms(4,6,7) by simp_all
    have "sx \<le> sx + max (clientWidth D - rectWidth T) 0" "sy \<le> sy + max (clientHeight D - rectHeight T) 0"
      by simp_all
    then show ?thesis
      unfolding eqs using clamp_bounds by blast
  qed
  have pos: "styleLeft c' = clamp (rectX B + rectWidth B / 2 - rectLeft P - rectWidth T / 2) 0
                           (max (rectWidth P - rectWidth T) 0)
          \<and> styleTop c' = clamp ((if shouldPlaceAbove D B then rectY B - rectHeight T - 8
                                    else rectY B + rectHeight B + 8) - rectTop P) 0
                             (max (rectHeight P - rectHeight T) 0)
          \<and> 0 \<le> styleLeft c' \<and> styleLeft c' \<le> max (rectWidth P - rectWidth T) 0
          \<and> 0 \<le> styleTop c' \<and> styleTop c' \<le> max (rectHeight P - rectHeight T) 0"
    if "containerOffsetParent D = Positioned P" for P
  proof -
    have eqs: "styleLeft c' = clamp (rectX B + rectWidth B / 2 - rectLeft P - rectWidth T / 2) 0
                           (max (rectWidth P - rectWidth T) 0)"
      "styleTop c' = clamp ((if shouldPlaceAbove D B then rectY B - rectHeight T - 8
                                    else rectY B + rectHeight B + 8) - rectTop P) 0
                             (max (rectHeight P - rectHeight T) 0)"
      unfolding l t placement_positioned [OF that] assms(4) by simp_all
    have "(0::real) \<le> max (rectWidth P - rectWidth T) 0" "(0::real) \<le> max (rectHeight P - rectHeight T) 0"
      by simp_all
    then show ?thesis
      unfolding eqs using clamp_bounds by blast
  qed
  show ?thesis
    using above some root pos by blast
qed

lemma exDom_simps [simp]:
  "elementRect (exDom vw) e = \<lparr>rectX = 100, rectY = 50, rectWidth = 40, rectHeight = 20\<rparr>"
  "containerRect (exDom vw) = \<lparr>rectX = 0, rectY = 0, rectWidth = 60, rectHeight = 30\<rparr>"
  "containerOffsetParent (exDom vw) = Body"
  "clientHeight (exDom vw) = 200"
  "clientWidth (exDom vw) = vw"
  "windowScrollX (exDom vw) = 0"
  "windowScrollY (exDom vw) = 0"
  "scrollLeft (exDom vw) = 0"
  "scrollTop (exDom vw) = 0"
  by (simp_all add: exDom_def)

text \<open>
  The example of the claim: \<open>B = {x: 100, y: 50, width: 40, height: 20}\<close>, a toolbar
  of 60 by 30, a viewport 200 high (and 300 wide) that is not scrolled: above, at
  \<open>y = 12\<close>, with \<open>x = 90\<close> inside \<open>[0, 300 - 60]\<close>.
\<close>

theorem placeEditBar_position_witness:
  "[TextA] \<noteq> []
   \<and> getCombinedBounds exUtils (map (elementRect (exDom 300)) [TextA])
       = \<lparr>rectX = 100, rectY = 50, rectWidth = 40, rectHeight = 20\<rparr>
   \<and> shouldPlaceAbove (exDom 300) \<lparr>rectX = 100, rectY = 50, rectWidth = 40, rectHeight = 20\<rparr>
   \<and> styleTop (the (container (placeEditBar exUtils (exDom 300) exBar [TextA]))) = 12
   \<and> styleLeft (the (container (placeEditBar exUtils (exDom 300) exBar [TextA]))) = 90
   \<and> 0 \<le> styleLeft (the (container (placeEditBar exUtils (exDom 300) exBar [TextA])))
   \<and> styleLeft (the (container (placeEditBar exUtils (exDom 300) exBar [TextA]))) \<le> 300 - 60"
proof -
  have c: "container exBar = Some \<lparr>styleVisibility = Hidden, styleLeft = 0, styleTop = 0,
      children = [], inDocument = True\<rparr>"
    by (simp add: exBar_def getOrCreateEditBar_def newEditBar_def)
  have B: "\<lparr>rectX = 100, rectY = 50, rectWidth = 40, rectHeight = 20\<rparr>
      = getCombinedBounds exUtils (map (elementRect (exDom 300)) [TextA])"
    by simp
  have sx: "(0::real) = orElse (windowScrollX (exDom 300)) (scrollLeft (exDom 300))"
    and sy: "(0::real) = orElse (windowScrollY (exDom 300)) (scrollTop (exDom 300))"
    by (simp_all add: orElse_def)
  have root: "\<forall>P. containerOffsetParent (exDom 300) \<noteq> Positioned P"
    by simp
  have B': "getCombinedBounds exUtils (map (elementRect (exDom 300)) [TextA])
      = \<lparr>rectX = 100, rectY = 50, rectWidth = 40, rectHeight = 20\<rparr>"
    by simp
  have above: "shouldPlaceAbove (exDom 300) \<lparr>rectX = 100, rectY = 50, rectWidth = 40, rectHeight = 20\<rparr>"
    by (simp add: shouldPlaceAbove_def spaceAbove_def spaceBelow_def offset_def)
  note inst = placeEditBar_position [where sel = "[TextA]" and U = exUtils and D = "exDom 300",
      OF _ c B refl refl sx sy]
  from inst root have
    "styleLeft (the (container (placeEditBar exUtils (exDom 300) exBar [TextA]))) = clamp (0 + (100 + 40 / 2 - 60 / 2)) 0 (0 + max (300 - 60) 0)"
    "styleTop (the (container (placeEditBar exUtils (exDom 300) exBar [TextA]))) = clamp (0 + (50 - 30 - 8)) 0 (0 + max (200 - 30) 0)"
    using above by simp_all
  then show ?thesis
    using B' above by (simp add: clamp_def)
qed

text \<open>
  The same example for a viewport of any width of at least 60: still above at
  \<open>y = 12\<close>, with \<open>x\<close> the centred position 90 clamped into \<open>[0, vw - 60]\<close>.
\<close>

lemma placeEditBar_example_any_width:
  assumes "60 \<le> vw"
  shows "styleTop (the (container (placeEditBar exUtils (exDom vw) exBar [TextA]))) = 12
    \<and> styleLeft (the (container (placeEditBar exUtils (exDom vw) exBar [TextA]))) = min 90 (vw - 60)
    \<and> 0 \<le> styleLeft (the (container (placeEditBar exUtils (exDom vw) exBar [TextA])))
    \<and> styleLeft (the (container (placeEditBar exUtils (exDom vw) exBar [TextA]))) \<le> vw - 60"
  using assms
  by (simp add: placeEditBar_def exBar_def getOrCreateEditBar_def newEditBar_def Let_def
      placement_def shouldPlaceAbove_def spaceAbove_def spaceBelow_def offset_def orElse_def
      clamp_def)

section \<open>Item resolution and the selection handler\<close>

lemma getEditItems_stages:
  "getEditItems U opts sel context =
     stageItems (stageOf opts cfgPrepend) (case context of Some c \<Rightarrow> c | None \<Rightarrow> buildContext U sel)
     @ (if defaultsEnabled opts then getDefaultItems U sel (getSelectionType U sel) else [])
     @ stageItems (case itemConfigOf opts of None \<Rightarrow> None
                   | Some ic \<Rightarrow> typeItemsOf ic (getSelectionType U sel))
         (case context of Some c \<Rightarrow> c | None \<Rightarrow> buildContext U sel)
     @ stageItems (stageOf opts cfgAppend) (case context of Some c \<Rightarrow> c | None \<Rightarrow> buildContext U sel)"
  by (simp add: getEditItems_def Let_def stageItems_def stageOf_def itemConfigOf_def
      defaultsEnabled_def split: option.splits)

lemma isVisible_showContainer: "container s = Some c \<Longrightarrow> isVisible (showContainer s)"
  by (simp add: isVisible_def showContainer_def)

lemma isVisible_hideContainer: "\<not> isVisible (hideContainer s)"
  by (simp add: isVisible_def hideContainer_def split: option.splits)

lemma container_getOrCreate: "\<exists>c. container (getOrCreateEditBar s) = Some c"
  by (simp add: getOrCreateEditBar_def split: option.splits)

lemma attach_result:
  assumes "nxt \<noteq> []"
  shows "childrenOf (showContainer (placeEditBar U D
            (setContainerItems (cleanupContainerItems (getOrCreateEditBar s)) its) nxt)) = its
       \<and> isVisible (showContainer (placeEditBar U D
            (setContainerItems (cleanupContainerItems (getOrCreateEditBar s)) its) nxt))"
proof -
  obtain c where c: "container (getOrCreateEditBar s) = Some c"
    using container_getOrCreate by blast
  show ?thesis
    using assms c
    by (simp add: childrenOf_def isVisible_def showContainer_def placeEditBar_def
        setContainerItems_def cleanupContainerItems_def Let_def)
qed

lemma handle_items_path:
  assumes "renderOf (options s) = None" "\<not> filterRejects (options s) nxt" "nxt \<noteq> []"
  shows "handleSelectionChanged U D s nxt =
     (let s1 = getOrCreateEditBar (s\<lparr>selection := nxt\<rparr>);
          its = getEditItems U (options s) nxt (Some (buildContext U nxt))
      in if its = [] then hideContainer s1
         else showContainer (placeEditBar U D (setContainerItems (cleanupContainerItems s1) its) nxt))"
  using assms by (simp add: handleSelectionChanged_def Let_def)

lemma handle_render_path:
  assumes "renderOf (options s) = Some r" "\<not> filterRejects (options s) nxt" "nxt \<noteq> []"
  shows "handleSelectionChanged U D s nxt =
     (case r (buildContext U nxt) of
        None \<Rightarrow> hideContainer (s\<lparr>selection := nxt\<rparr>)
      | Some customContent \<Rightarrow>
          showContainer (placeEditBar U D
            (setContainerItems (cleanupContainerItems (getOrCreateEditBar (s\<lparr>selection := nxt\<rparr>)))
               [customContent]) nxt))"
  using assms by (simp add: handleSelectionChanged_def Let_def)

text \<open>
  C4. The list that \<open>getEditItems\<close> resolves is, in this order: the prepended custom
  items, the default items of the classified type unless defaults are disabled, the
  custom items of that type, the appended custom items (a factory that returns
  \<open>null\<close> contributes nothing). Without a full renderer, a non-empty selection that
  passes the filter shows exactly that list, or hides the toolbar when it is empty.
  With a full renderer, a non-empty selection that passes the filter shows exactly
  the returned content, or hides the toolbar when nothing is returned, and the
  handler does the same whatever \<open>items\<close> and \<open>includeDefaults\<close> are.
\<close>

theorem getEditItems_resolution:
  "(ctx = (case given of Some c \<Rightarrow> c | None \<Rightarrow> buildContext U sel) \<longrightarrow>
      getEditItems U opts sel given =
        stageItems (stageOf opts cfgPrepend) ctx
        @ (if defaultsEnabled opts then getDefaultItems U sel (getSelectionType U sel) else [])
        @ stageItems (case itemConfigOf opts of None \<Rightarrow> None
                      | Some ic \<Rightarrow> typeItemsOf ic (getSelectionType U sel)) ctx
        @ stageItems (stageOf opts cfgAppend) ctx)
   \<and> (renderOf (options s) = None \<and> \<not> filterRejects (options s) nxt \<and> nxt \<noteq> [] \<and>
       its = getEditItems U (options s) nxt (Some (buildContext U nxt)) \<longrightarrow>
      (if its = [] then \<not> isVisible (handleSelectionChanged U D s nxt)
       else childrenOf (handleSelectionChanged U D s nxt) = its \<and>
            isVisible (handleSelectionChanged U D s nxt)))
   \<and> (renderOf (options s) = Some r \<and> \<not> filterRejects (options s) nxt \<and> nxt \<noteq> [] \<longrightarrow>
      (case r (buildContext U nxt) of
         None \<Rightarrow> handleSelectionChanged U D s nxt = hideContainer (s\<lparr>selection := nxt\<rparr>)
       | Some customContent \<Rightarrow>
           childrenOf (handleSelectionChanged U D s nxt) = [customContent] \<and>
           isVisible (handleSelectionChanged U D s nxt)))
   \<and> (options s = Some ob \<and> render ob = Some r \<longrightarrow>
      handleSelectionChanged U D (s\<lparr>options := Some (ob\<lparr>items := ic, includeDefaults := d\<rparr>)\<rparr>) nxt
        = (handleSelectionChanged U D s nxt)\<lparr>options := Some (ob\<lparr>items := ic, includeDefaults := d\<rparr>)\<rparr>)"
proof (intro conjI impI)
  assume "ctx = (case given of Some c \<Rightarrow> c | None \<Rightarrow> buildContext U sel)"
  then show "getEditItems U opts sel given =
        stageItems (stageOf opts cfgPrepend) ctx
        @ (if defaultsEnabled opts then getDefaultItems U sel (getSelectionType U sel) else [])
        @ stageItems (case itemConfigOf opts of None \<Rightarrow> None
                      | Some ic \<Rightarrow> typeItemsOf ic (getSelectionType U sel)) ctx
        @ stageItems (stageOf opts cfgAppend) ctx"
    by (simp add: getEditItems_stages)
next
  assume a: "renderOf (options s) = None \<and> \<not> filterRejects (options s) nxt \<and> nxt \<noteq> [] \<and>
       its = getEditItems U (options s) nxt (Some (buildContext U nxt))"
  then have h: "handleSelectionChanged U D s nxt =
     (if its = [] then hideContainer (getOrCreateEditBar (s\<lparr>selection := nxt\<rparr>))
      else showContainer (placeEditBar U D (setContainerItems
             (cleanupContainerItems (getOrCreateEditBar (s\<lparr>selection := nxt\<rparr>))) its) nxt))"
    by (simp add: handle_items_path Let_def)
  show "if its = [] then \<not> isVisible (handleSelectionChanged U D s nxt)
       else childrenOf (handleSelectionChanged U D s nxt) = its \<and>
            isVisible (handleSelectionChanged U D s nxt)"
    using a attach_result [of nxt U D "s\<lparr>selection := nxt\<rparr>" its]
    by (simp add: h isVisible_hideContainer)
next
  assume a: "renderOf (options s) = Some r \<and> \<not> filterRejects (options s) nxt \<and> nxt \<noteq> []"
  then have h: "handleSelectionChanged U D s nxt =
     (case r (buildContext U nxt) of
        None \<Rightarrow> hideContainer (s\<lparr>selection := nxt\<rparr>)
      | Some customContent \<Rightarrow>
          showContainer (placeEditBar U D
            (setContainerItems (cleanupContainerItems (getOrCreateEditBar (s\<lparr>selection := nxt\<rparr>)))
               [customContent]) nxt))"
    by (simp add: handle_render_path)
  show "case r (buildContext U nxt) of
         None \<Rightarrow> handleSelectionChanged U D s nxt = hideContainer (s\<lparr>selection := nxt\<rparr>)
       | Some customContent \<Rightarrow>
           childrenOf (handleSelectionChanged U D s nxt) = [customContent] \<and>
           isVisible (handleSelectionChanged U D s nxt)"
    using a attach_result [of nxt U D "s\<lparr>selection := nxt\<rparr>"]
    by (simp add: h split: option.splits)
next
  assume a: "options s = Some ob \<and> render ob = Some r"
  show "handleSelectionChanged U D (s\<lparr>options := Some (ob\<lparr>items := ic, includeDefaults := d\<rparr>)\<rparr>) nxt
        = (handleSelectionChanged U D s nxt)\<lparr>options := Some (ob\<lparr>items := ic, includeDefaults := d\<rparr>)\<rparr>"
    using a
    by (simp add: handleSelectionChanged_def Let_def filterRejects_def renderOf_def
        hideContainer_def showContainer_def placeEditBar_def setContainerItems_def
        cleanupContainerItems_def getOrCreateEditBar_def
        split: option.splits)
qed

text \<open>The definitions that a run of the plugin on the example document unfolds.\<close>

lemmas editbar_defs =
  handleSelectionChanged_def handleHistoryChanged_def handleGeometryChanged_def
  filterRejects_def renderOf_def hideContainer_def showContainer_def placeEditBar_def
  setContainerItems_def cleanupContainerItems_def cleanupReactEditBar_def
  getOrCreateEditBar_def newEditBar_def dispatch_def selectionChange_def historyChange_def
  buildContext_def isVisible_def childrenOf_def init_def destroy_def emitterOn_def
  emitterOff_def

lemma ex_items [simp]:
  "getEditItems exUtils (Some itemOptions) [TextA] c = [Custom 1 None, Custom 2 None, Custom 3 None]"
  "getEditItems exUtils None [GeomA] c = []"
  "getEditItems exUtils (Some reactItemOptions) [TextA] c = [Custom 4 (Some 9)]"
  "getEditItems exUtils (Some reactItemOptions) [GeomA] c = []"
  by (simp_all add: getEditItems_def itemOptions_def reactItemOptions_def renderCustomItems_def
      typeItemsOf_def getDefaultItems_def getGeometryEditItems_def)

text \<open>
  The theorem on the example document: with defaults disabled, one prepended, one
  text-specific (and one factory returning \<open>null\<close>) and one appended item resolve to
  these three in that order and are shown; with a full renderer its content is shown.
\<close>

theorem getEditItems_resolution_witness:
  "getEditItems exUtils (Some itemOptions) [TextA] None
     = [Custom 1 None, Custom 2 None, Custom 3 None]
   \<and> childrenOf (handleSelectionChanged exUtils (exDom 300) (newEditBar (Some itemOptions) []) [TextA])
     = [Custom 1 None, Custom 2 None, Custom 3 None]
   \<and> isVisible (handleSelectionChanged exUtils (exDom 300) (newEditBar (Some itemOptions) []) [TextA])
   \<and> childrenOf (handleSelectionChanged exUtils (exDom 300) (newEditBar (Some reactOptions) []) [TextA])
     = [Custom 1 (Some 7)]
   \<and> isVisible (handleSelectionChanged exUtils (exDom 300) (newEditBar (Some reactOptions) []) [TextA])"
proof -
  have stages: "stageItems (stageOf (Some itemOptions) cfgPrepend) (buildContext exUtils [TextA])
        @ (if defaultsEnabled (Some itemOptions)
           then getDefaultItems exUtils [TextA] (getSelectionType exUtils [TextA]) else [])
        @ stageItems (case itemConfigOf (Some itemOptions) of None \<Rightarrow> None
                      | Some ic \<Rightarrow> typeItemsOf ic (getSelectionType exUtils [TextA]))
            (buildContext exUtils [TextA])
        @ stageItems (stageOf (Some itemOptions) cfgAppend) (buildContext exUtils [TextA])
      = [Custom 1 None, Custom 2 None, Custom 3 None]"
    by (simp add: stageItems_def stageOf_def itemConfigOf_def defaultsEnabled_def itemOptions_def
        renderCustomItems_def typeItemsOf_def)
  have o1: "options (newEditBar (Some itemOptions) []) = Some itemOptions"
    and o2: "options (newEditBar (Some reactOptions) []) = Some reactOptions"
    by (simp_all add: newEditBar_def)
  have p1: "renderOf (Some itemOptions) = None \<and> \<not> filterRejects (Some itemOptions) [TextA]"
    by (simp add: renderOf_def filterRejects_def itemOptions_def)
  have p2: "renderOf (Some reactOptions) = Some (\<lambda>ctx. Some (Custom 1 (Some 7)))
      \<and> \<not> filterRejects (Some reactOptions) [TextA]"
    by (simp add: renderOf_def filterRejects_def reactOptions_def)
  note a = getEditItems_resolution
    [where U = exUtils and opts = "Some itemOptions" and sel = "[TextA]" and given = None
      and ctx = "buildContext exUtils [TextA]" and s = "newEditBar (Some itemOptions) []"
      and nxt = "[TextA]" and D = "exDom 300"
      and its = "[Custom 1 None, Custom 2 None, Custom 3 None]"]
  note b = getEditItems_resolution
    [where s = "newEditBar (Some reactOptions) []" and nxt = "[TextA]" and D = "exDom 300"
      and U = exUtils and r = "\<lambda>ctx. Some (Custom 1 (Some 7))"]
  have A: "getEditItems exUtils (Some itemOptions) [TextA] None
     = [Custom 1 None, Custom 2 None, Custom 3 None]"
    using a stages by simp
  have B: "childrenOf (handleSelectionChanged exUtils (exDom 300) (newEditBar (Some itemOptions) []) [TextA])
     = [Custom 1 None, Custom 2 None, Custom 3 None]
   \<and> isVisible (handleSelectionChanged exUtils (exDom 300) (newEditBar (Some itemOptions) []) [TextA])"
    using a p1 by (simp add: o1)
  have C: "childrenOf (handleSelectionChanged exUtils (exDom 300) (newEditBar (Some reactOptions) []) [TextA])
     = [Custom 1 (Some 7)]
   \<and> isVisible (handleSelectionChanged exUtils (exDom 300) (newEditBar (Some reactOptions) []) [TextA])"
    using b p2 by (simp add: o2)
  show ?thesis
    using A B C by simp
qed

section \<open>Visibility over a run of events\<close>

text \<open>
  Directly after a selection change the toolbar is visible exactly when the selection
  is not empty, the filter does not reject it, and the renderer returned content or,
  without a renderer, at least one item was resolved.
\<close>

lemma handleSelectionChanged_visible_iff:
  "isVisible (handleSelectionChanged U D s nxt) \<longleftrightarrow>
     nxt \<noteq> [] \<and> \<not> filterRejects (options s) nxt \<and>
     (case renderOf (options s) of
        Some r \<Rightarrow> r (buildContext U nxt) \<noteq> None
      | None \<Rightarrow> getEditItems U (options s) nxt (Some (buildContext U nxt)) \<noteq> [])"
proof (cases "nxt = [] \<or> filterRejects (options s) nxt")
  case True
  then have "handleSelectionChanged U D s nxt = hideContainer (s\<lparr>selection := nxt\<rparr>)"
    by (auto simp: handleSelectionChanged_def Let_def)
  with True show ?thesis
    by (auto simp: isVisible_hideContainer)
next
  case False
  then have ok: "\<not> filterRejects (options s) nxt" "nxt \<noteq> []"
    by simp_all
  show ?thesis
  proof (cases "renderOf (options s)")
    case None
    show ?thesis
      using attach_result [OF ok(2), of U D "s\<lparr>selection := nxt\<rparr>"]
      by (simp add: handle_items_path [OF None ok] Let_def None ok isVisible_hideContainer)
  next
    case (Some r)
    show ?thesis
      using attach_result [OF ok(2), of U D "s\<lparr>selection := nxt\<rparr>"]
      by (simp add: handle_render_path [OF Some ok] Some ok isVisible_hideContainer
          split: option.splits)
  qed
qed

text \<open>
  C5 at two runs of the plugin. Without options, a single shape is selected (no
  items: the container is created and stays hidden) and a history change follows:
  the empty toolbar is visible. With a filter that accepts only the selection of
  \<open>TextA\<close>, that selection is followed by the selection of \<open>TextB\<close> (rejected: the
  toolbar is hidden) and by a history change: the toolbar is visible although the
  filter rejects the current selection.
\<close>

theorem toolbar_visible_after_history_change:
  "\<not> isVisible (run exUtils (init (newEditBar None [])) [selectionChange [GeomA]])
   \<and> getEditItems exUtils None [GeomA] None = []
   \<and> isVisible (run exUtils (init (newEditBar None [])) [selectionChange [GeomA], historyChange])
   \<and> childrenOf (run exUtils (init (newEditBar None [])) [selectionChange [GeomA], historyChange]) = []
   \<and> selection (run exUtils (init (newEditBar None [])) [selectionChange [GeomA], historyChange])
       = [GeomA]
   \<and> \<not> isVisible (run exUtils (init (newEditBar (Some filterOptions) []))
        [selectionChange [TextA], selectionChange [TextB]])
   \<and> isVisible (run exUtils (init (newEditBar (Some filterOptions) []))
        [selectionChange [TextA], selectionChange [TextB], historyChange])
   \<and> selection (run exUtils (init (newEditBar (Some filterOptions) []))
        [selectionChange [TextA], selectionChange [TextB], historyChange]) = [TextB]
   \<and> filterRejects (Some filterOptions) [TextB]"
  by (simp add: editbar_defs Let_def filterOptions_def getEditItems_def getDefaultItems_def
      getTextEditItems_def getGeometryEditItems_def)


section \<open>Disposal of rendered content\<close>

lemma pendingRoots_alt: "concat (map snd (map cleanupReactEditBar ns)) = pendingRoots ns"
  by (simp add: pendingRoots_def comp_def)

lemma attach_effects:
  assumes "nxt \<noteq> []" and "s' = showContainer (placeEditBar U D
            (setContainerItems (cleanupContainerItems (getOrCreateEditBar s)) its) nxt)"
  shows "trace s' = trace s @ (if container s = None then [OpCreate] else [])
            @ map OpUnmount (pendingRoots (childrenOf s)) @ [OpSetItems its, OpPlace, OpShow]"
    and "unmounted s' = unmounted s @ pendingRoots (childrenOf s)"
    and "childrenOf s' = its"
    and "isVisible s'"
  using assms
  by (cases "container s";
      simp add: childrenOf_def isVisible_def showContainer_def placeEditBar_def
        setContainerItems_def cleanupContainerItems_def getOrCreateEditBar_def Let_def
        pendingRoots_def comp_def)+

lemma hide_effects:
  assumes "s' = hideContainer s"
  shows "trace s' = trace s @ (if container s = None then [] else [OpHide])"
    and "unmounted s' = unmounted s"
    and "childrenOf s' = childrenOf s"
    and "\<not> isVisible s'"
  using assms
  by (cases "container s"; simp add: childrenOf_def isVisible_def hideContainer_def)+

lemma create_effects:
  "trace (getOrCreateEditBar s) = trace s @ (if container s = None then [OpCreate] else [])"
  "unmounted (getOrCreateEditBar s) = unmounted s"
  "childrenOf (getOrCreateEditBar s) = childrenOf s"
  "container (getOrCreateEditBar s) \<noteq> None"
  by (cases "container s"; simp add: childrenOf_def getOrCreateEditBar_def)+

lemma handleSelectionChanged_cases:
  "(\<exists>its. its \<noteq> [] \<and> nxt \<noteq> [] \<and> handleSelectionChanged U D s nxt =
        showContainer (placeEditBar U D (setContainerItems
          (cleanupContainerItems (getOrCreateEditBar (s\<lparr>selection := nxt\<rparr>))) its) nxt))
   \<or> handleSelectionChanged U D s nxt = hideContainer (s\<lparr>selection := nxt\<rparr>)
   \<or> handleSelectionChanged U D s nxt = hideContainer (getOrCreateEditBar (s\<lparr>selection := nxt\<rparr>))"
  by (auto simp: handleSelectionChanged_def Let_def split: option.splits)

text \<open>
  C6, as amended. A selection change does one of two things. Either it attaches new,
  non-empty content and shows the toolbar: then the React roots of all children
  attached before are unmounted first, in the trace directly before the new items
  are set (and after the container is created, if there was none). Or it leaves the
  toolbar hidden: then nothing is unmounted and the children attached before stay
  attached as they are.
\<close>

theorem handleSelectionChanged_disposal:
  assumes "s' = handleSelectionChanged U D s nxt"
  shows
   "(\<exists>its. its \<noteq> [] \<and>
        trace s' = trace s @ (if container s = None then [OpCreate] else [])
          @ map OpUnmount (pendingRoots (childrenOf s)) @ [OpSetItems its, OpPlace, OpShow]
        \<and> unmounted s' = unmounted s @ pendingRoots (childrenOf s)
        \<and> childrenOf s' = its \<and> isVisible s')
    \<or> (\<not> isVisible s' \<and> unmounted s' = unmounted s \<and> childrenOf s' = childrenOf s
        \<and> (trace s' = trace s \<or> trace s' = trace s @ [OpHide]
            \<or> trace s' = trace s @ [OpCreate, OpHide]))"
proof -
  let ?s0 = "s\<lparr>selection := nxt\<rparr>"
  have s0: "trace ?s0 = trace s" "unmounted ?s0 = unmounted s" "childrenOf ?s0 = childrenOf s"
    "container ?s0 = container s"
    by (simp_all add: childrenOf_def)
  consider (attach) its where "its \<noteq> []" "nxt \<noteq> []"
      "s' = showContainer (placeEditBar U D (setContainerItems
          (cleanupContainerItems (getOrCreateEditBar ?s0)) its) nxt)"
    | (hide) "s' = hideContainer ?s0"
    | (create_hide) "s' = hideContainer (getOrCreateEditBar ?s0)"
    using handleSelectionChanged_cases [of nxt U D s] assms by auto
  then show ?thesis
  proof cases
    case attach
    from attach_effects [OF attach(2,3)] attach(1) show ?thesis
      by (auto simp: s0)
  next
    case hide
    from hide_effects [OF hide] show ?thesis
      by (auto simp: s0)
  next
    case create_hide
    from hide_effects [OF create_hide] show ?thesis
      by (auto simp: s0 create_effects)
  qed
qed

text \<open>The example options, ready for evaluation.\<close>

lemma ex_react_items [simp]:
  "render reactOptions = Some (\<lambda>ctx. Some (Custom 1 (Some 7)))"
  "filterSelection reactOptions = None"
  "render reactItemOptions = None"
  "filterSelection reactItemOptions = None"
  by (simp_all add: reactOptions_def reactItemOptions_def)

text \<open>
  The theorem on the example document with the React renderer: \<open>TextA\<close> is selected,
  then \<open>TextB\<close>; the root of the first content is unmounted before the second content
  is set.
\<close>

theorem handleSelectionChanged_disposal_witness:
  "unmounted (run exUtils (newEditBar (Some reactOptions) [])
       [selectionChange [TextA], selectionChange [TextB]]) = [7]
   \<and> trace (run exUtils (newEditBar (Some reactOptions) [])
       [selectionChange [TextA], selectionChange [TextB]])
     = [OpCreate, OpSetItems [Custom 1 (Some 7)], OpPlace, OpShow,
        OpUnmount 7, OpSetItems [Custom 1 (Some 7)], OpPlace, OpShow]
   \<and> isVisible (run exUtils (newEditBar (Some reactOptions) [])
       [selectionChange [TextA], selectionChange [TextB]])"
proof -
  let ?s1 = "run exUtils (newEditBar (Some reactOptions) []) [selectionChange [TextA]]"
  have s1: "trace ?s1 = [OpCreate, OpSetItems [Custom 1 (Some 7)], OpPlace, OpShow]"
    "unmounted ?s1 = []" "childrenOf ?s1 = [Custom 1 (Some 7)]" "container ?s1 \<noteq> None"
    by (simp_all add: editbar_defs Let_def)
  have step: "run exUtils (newEditBar (Some reactOptions) [])
       [selectionChange [TextA], selectionChange [TextB]]
      = handleSelectionChanged exUtils (exDom 300) ?s1 [TextB]"
    by (simp add: dispatch_def selectionChange_def)
  have vis: "isVisible (handleSelectionChanged exUtils (exDom 300) ?s1 [TextB])"
    and ch: "childrenOf (handleSelectionChanged exUtils (exDom 300) ?s1 [TextB]) = [Custom 1 (Some 7)]"
    by (simp_all add: editbar_defs Let_def)
  show ?thesis
    using handleSelectionChanged_disposal [OF refl, of exUtils "exDom 300" ?s1 "[TextB]"] vis ch
    unfolding step
    by (auto simp: s1 pendingRoots_def cleanupReactEditBar_def)
qed

text \<open>
  C6 as stated fails. With the React renderer, \<open>TextA\<close> is selected and then nothing:
  the toolbar is hidden, its child still carries its cleanup, no root has been
  unmounted, and the trace ends with the hiding. The same with a React item for
  texts, when a shape is selected next and no item is resolved for it.
\<close>

theorem hidden_with_mounted_root:
  "\<not> isVisible (run exUtils (newEditBar (Some reactOptions) [])
       [selectionChange [TextA], selectionChange []])
   \<and> childrenOf (run exUtils (newEditBar (Some reactOptions) [])
       [selectionChange [TextA], selectionChange []]) = [Custom 1 (Some 7)]
   \<and> unmounted (run exUtils (newEditBar (Some reactOptions) [])
       [selectionChange [TextA], selectionChange []]) = []
   \<and> trace (run exUtils (newEditBar (Some reactOptions) [])
       [selectionChange [TextA], selectionChange []])
     = [OpCreate, OpSetItems [Custom 1 (Some 7)], OpPlace, OpShow, OpHide]
   \<and> \<not> isVisible (run exUtils (newEditBar (Some reactItemOptions) [])
       [selectionChange [TextA], selectionChange [GeomA]])
   \<and> childrenOf (run exUtils (newEditBar (Some reactItemOptions) [])
       [selectionChange [TextA], selectionChange [GeomA]]) = [Custom 4 (Some 9)]
   \<and> unmounted (run exUtils (newEditBar (Some reactItemOptions) [])
       [selectionChange [TextA], selectionChange [GeomA]]) = []"
  by (simp add: editbar_defs Let_def)

section \<open>Destroying the plugin\<close>

text \<open>
  C8 at a run of the plugin: it is initialised on an emitter that has a foreign
  listener, \<open>TextA\<close> is selected with the React renderer, and the plugin is destroyed.
  Its three listeners are gone and the foreign one is kept, the container is removed,
  but its child still carries its cleanup and no root has been unmounted.
\<close>

theorem destroy_leaves_root_mounted:
  "emitter (destroy (run exUtils
       (init (newEditBar (Some reactOptions) [(''selection:change'', Foreign 0)]))
       [selectionChange [TextA]]))
     = [(''selection:change'', Foreign 0)]
   \<and> childrenOf (destroy (run exUtils
       (init (newEditBar (Some reactOptions) [(''selection:change'', Foreign 0)]))
       [selectionChange [TextA]])) = [Custom 1 (Some 7)]
   \<and> unmounted (destroy (run exUtils
       (init (newEditBar (Some reactOptions) [(''selection:change'', Foreign 0)]))
       [selectionChange [TextA]])) = []
   \<and> trace (destroy (run exUtils
       (init (newEditBar (Some reactOptions) [(''selection:change'', Foreign 0)]))
       [selectionChange [TextA]]))
     = [OpCreate, OpSetItems [Custom 1 (Some 7)], OpPlace, OpShow, OpRemove]"
  by (simp add: editbar_defs Let_def)

text \<open>
  What \<open>destroy\<close> does achieve: exactly the three subscriptions of \<open>init\<close> are removed
  from the emitter, whatever the state.
\<close>

lemma destroy_unsubscribes:
  "(event, l) \<in> set (emitter (destroy s)) \<longleftrightarrow>
     (event, l) \<in> set (emitter s) \<and>
     (event, l) \<notin> {(''selection:change'', HandleSelectionChanged),
                    (''selection:geometrychange'', HandleGeometryChanged),
                    (''history:change'', HandleHistoryChanged)}"
  by (auto simp: destroy_def emitterOff_def Let_def split: option.splits)

section \<open>The event bridge\<close>

lemma bridge_history:
  "bridge st (HistoryChange action) =
     Emit ''historyChange''
       (InfographicHistoryChangeEvent action
          (case editor st of None \<Rightarrow> False | Some ed \<Rightarrow> canUndo ed)
          (case editor st of None \<Rightarrow> False | Some ed \<Rightarrow> canRedo ed)
          (case editor st of None \<Rightarrow> 0 | Some ed \<Rightarrow> getHistorySize ed))
     # withCallback (onHistoryChange (currentOptions st))
         (InfographicHistoryChangeEvent action
            (case editor st of None \<Rightarrow> False | Some ed \<Rightarrow> canUndo ed)
            (case editor st of None \<Rightarrow> False | Some ed \<Rightarrow> canRedo ed)
            (case editor st of None \<Rightarrow> 0 | Some ed \<Rightarrow> getHistorySize ed))"
  by (simp add: bridge_def bridgeHistoryChange_def Let_def)

lemma bridge_options:
  "bridge st (OptionsChange []) = []"
  "bridge st (OptionsChange (ch # rest)) =
     Emit ''change'' (InfographicChangeEvent (op ch) (path ch) (newValue ch) (currentOptions st))
     # withCallback (onChange (currentOptions st))
         (InfographicChangeEvent (op ch) (path ch) (newValue ch) (currentOptions st))"
  by (simp_all add: bridge_def bridgeOptionsChange_def Let_def)

lemma bridge_selection:
  "bridge st (SelectionChange previous nxt added removed) =
     Emit ''selectionChange'' (InfographicSelectionChangeEvent nxt added removed)
     # withCallback (onSelectionChange (currentOptions st))
         (InfographicSelectionChangeEvent nxt added removed)"
  by (simp add: bridge_def bridgeSelectionChange_def Let_def)

lemma bridge_geometry:
  "bridge st (SelectionGeometryChange target) =
     Emit ''geometryChange'' (InfographicGeometryChangeEvent target Move)
     # withCallback (onGeometryChange (currentOptions st))
         (InfographicGeometryChangeEvent target Move)"
  by (simp add: bridge_def bridgeGeometryChange_def Let_def)

lemma withCallback_no_emit: "Emit name p \<notin> set (withCallback cb q)"
  by (simp add: withCallback_def split: option.splits)

text \<open>
  C7. With an editor, a listener of the bridge answers an internal \<open>history:change\<close>
  by emitting \<open>historyChange\<close> with the same action and with \<open>canUndo\<close>, \<open>canRedo\<close> and
  \<open>historySize\<close> as the editor answers them at that moment (then it calls
  \<open>onHistoryChange\<close>, if given). \<open>options:change\<close> is answered by \<open>change\<close> (from its
  first change record, if it has one), \<open>selection:change\<close> by \<open>selectionChange\<close>,
  \<open>selection:geometrychange\<close> by \<open>geometryChange\<close>; the bridge emits under no other
  name.
\<close>

theorem bridge_reexposes:
  "(editor st = Some ed \<longrightarrow>
      bridge st (HistoryChange action) =
        Emit ''historyChange''
          (InfographicHistoryChangeEvent action (canUndo ed) (canRedo ed) (getHistorySize ed))
        # withCallback (onHistoryChange (currentOptions st))
            (InfographicHistoryChangeEvent action (canUndo ed) (canRedo ed) (getHistorySize ed)))
   \<and> bridge st (OptionsChange changes) =
        (case changes of
           [] \<Rightarrow> []
         | ch # rest \<Rightarrow>
             Emit ''change''
               (InfographicChangeEvent (op ch) (path ch) (newValue ch) (currentOptions st))
             # withCallback (onChange (currentOptions st))
                 (InfographicChangeEvent (op ch) (path ch) (newValue ch) (currentOptions st)))
   \<and> bridge st (SelectionChange previous nxt added removed) =
        Emit ''selectionChange'' (InfographicSelectionChangeEvent nxt added removed)
        # withCallback (onSelectionChange (currentOptions st))
            (InfographicSelectionChangeEvent nxt added removed)
   \<and> bridge st (SelectionGeometryChange target) =
        Emit ''geometryChange'' (InfographicGeometryChangeEvent target Move)
        # withCallback (onGeometryChange (currentOptions st))
            (InfographicGeometryChangeEvent target Move)
   \<and> (Emit name p \<in> set (bridge st ev) \<longrightarrow>
        (internalName ev, name) \<in>
          {(''options:change'', ''change''), (''selection:change'', ''selectionChange''),
           (''history:change'', ''historyChange''),
           (''selection:geometrychange'', ''geometryChange'')})"
proof (intro conjI impI)
  assume "editor st = Some ed"
  then show "bridge st (HistoryChange action) =
        Emit ''historyChange''
          (InfographicHistoryChangeEvent action (canUndo ed) (canRedo ed) (getHistorySize ed))
        # withCallback (onHistoryChange (currentOptions st))
            (InfographicHistoryChangeEvent action (canUndo ed) (canRedo ed) (getHistorySize ed))"
    by (simp add: bridge_history)
next
  show "bridge st (OptionsChange changes) =
        (case changes of
           [] \<Rightarrow> []
         | ch # rest \<Rightarrow>
             Emit ''change''
               (InfographicChangeEvent (op ch) (path ch) (newValue ch) (currentOptions st))
             # withCallback (onChange (currentOptions st))
                 (InfographicChangeEvent (op ch) (path ch) (newValue ch) (currentOptions st)))"
    by (cases changes) (simp_all add: bridge_options)
next
  show "bridge st (SelectionChange previous nxt added removed) =
        Emit ''selectionChange'' (InfographicSelectionChangeEvent nxt added removed)
        # withCallback (onSelectionChange (currentOptions st))
            (InfographicSelectionChangeEvent nxt added removed)"
    by (rule bridge_selection)
next
  show "bridge st (SelectionGeometryChange target) =
        Emit ''geometryChange'' (InfographicGeometryChangeEvent target Move)
        # withCallback (onGeometryChange (currentOptions st))
            (InfographicGeometryChangeEvent target Move)"
    by (rule bridge_geometry)
next
  assume e: "Emit name p \<in> set (bridge st ev)"
  show "(internalName ev, name) \<in>
          {(''options:change'', ''change''), (''selection:change'', ''selectionChange''),
           (''history:change'', ''historyChange''),
           (''selection:geometrychange'', ''geometryChange'')}"
  proof (cases ev)
    case (OptionsChange changes)
    with e show ?thesis
      by (cases changes) (simp_all add: bridge_options internalName_def withCallback_no_emit)
  next
    case (SelectionChange previous nxt added removed)
    with e show ?thesis
      by (simp add: bridge_selection internalName_def withCallback_no_emit)
  next
    case (SelectionGeometryChange target)
    with e show ?thesis
      by (simp add: bridge_geometry internalName_def withCallback_no_emit)
  next
    case (HistoryChange action)
    with e show ?thesis
      by (simp add: bridge_history internalName_def withCallback_no_emit)
  qed
qed

text \<open>The example instance, ready for evaluation.\<close>

lemma exInfographic_simps [simp]:
  "editor exInfographic = Some \<lparr>canUndo = True, canRedo = False, getHistorySize = 2\<rparr>"
  "currentOptions exInfographic = exOptions"
  "rendered exInfographic = True"
  "svgNode exInfographic = Some 5"
  "hostChildren exInfographic 0 = [5]"
  "emitted exInfographic = []"
  "onChange exOptions = Some 1"
  "onHistoryChange exOptions = Some 3"
  by (simp_all add: exInfographic_def exOptions_def)

text \<open>
  The theorem on the example instance, whose editor can undo, cannot redo and holds
  two entries: an undo is re-exposed with these answers.
\<close>

theorem bridge_reexposes_witness:
  "editor exInfographic = Some \<lparr>canUndo = True, canRedo = False, getHistorySize = 2\<rparr>
   \<and> bridge exInfographic (HistoryChange Undo) =
       [Emit ''historyChange'' (InfographicHistoryChangeEvent Undo True False 2),
        Invoke 3 (InfographicHistoryChangeEvent Undo True False 2)]
   \<and> Emit ''historyChange'' (InfographicHistoryChangeEvent Undo True False 2)
       \<in> set (bridge exInfographic (HistoryChange Undo))
   \<and> (internalName (HistoryChange Undo :: (exElement, jsValue) busEvent), ''historyChange'')
       = (''history:change'', ''historyChange'')"
  using bridge_reexposes [of exInfographic "\<lparr>canUndo = True, canRedo = False, getHistorySize = 2\<rparr>"
      Undo "[]" "[]" "[]" "[]" "[]" TextA "''historyChange''"
      "InfographicHistoryChangeEvent Undo True False 2" "HistoryChange Undo"]
  by (simp add: withCallback_def internalName_def)

text \<open>
  C9. For an \<open>options:change\<close> with at least one change record, the bridge emits one
  \<open>change\<close> event with the operation, path and value of the first record and the
  current options, then calls \<open>onChange\<close> with the same event if the prop is given;
  the records after the first make no difference. For an empty list of changes it
  emits nothing and calls nothing.
\<close>

theorem bridge_first_change_only:
  "bridge st (OptionsChange (ch # rest)) =
     Emit ''change'' (InfographicChangeEvent (op ch) (path ch) (newValue ch) (currentOptions st))
     # (case onChange (currentOptions st) of
          None \<Rightarrow> []
        | Some f \<Rightarrow>
            [Invoke f (InfographicChangeEvent (op ch) (path ch) (newValue ch) (currentOptions st))])
   \<and> bridge st (OptionsChange (ch # rest)) = bridge st (OptionsChange [ch])
   \<and> bridge st (OptionsChange []) = []"
  by (simp add: bridge_options withCallback_def)

text \<open>The theorem on the example instance and an emission of two change records.\<close>

theorem bridge_first_change_only_witness:
  "bridge exInfographic
     (OptionsChange [\<lparr>op = Update, path = ''data.items[0].label'', newValue = JStr ''a''\<rparr>,
                     \<lparr>op = Remove, path = ''data.items[1]'', newValue = JNum 0\<rparr>])
     = [Emit ''change'' (InfographicChangeEvent Update ''data.items[0].label'' (JStr ''a'') exOptions),
        Invoke 1 (InfographicChangeEvent Update ''data.items[0].label'' (JStr ''a'') exOptions)]
   \<and> bridge exInfographic (OptionsChange []) = []"
  using bridge_first_change_only [of exInfographic
      "\<lparr>op = Update, path = ''data.items[0].label'', newValue = JStr ''a''\<rparr>"
      "[\<lparr>op = Remove, path = ''data.items[1]'', newValue = JNum 0\<rparr>]"]
  by simp

section \<open>Rendering with incomplete options\<close>

lemma emits_frame:
  "rendered (emits st outs) = rendered st"
  "svgNode (emits st outs) = svgNode st"
  "editor (emits st outs) = editor st"
  "hostChildren (emits st outs) = hostChildren st"
  "bridges (emits st outs) = bridges st"
  "parsedOptions (emits st outs) = parsedOptions st"
  "emitted (emits st outs) = emitted st @ outs"
  by (simp_all add: emits_def)

lemma setOptions_frame:
  "rendered (setOptions P st input md ini) = rendered st"
  "svgNode (setOptions P st input md ini) = svgNode st"
  "editor (setOptions P st input md ini) = editor st"
  "hostChildren (setOptions P st input md ini) = hostChildren st"
  "bridges (setOptions P st input md ini) = bridges st"
  by (simp_all add: setOptions_def Let_def emits_frame split: prod.splits)

lemma performRender_incomplete:
  assumes "\<not> isCompleteParsedInfographicOptions P (parsedOptions st)"
  shows "performRender P st = Inr (False, emits st [Emit ''error'' (Error ''Incomplete options'')])"
  using assms by (simp add: performRender_def Let_def)

text \<open>
  C10. When the parsed options that \<open>render\<close> or \<open>update\<close> arrives at are incomplete
  (after \<open>setOptions\<close>, where the call sets options), the call emits an \<open>error\<close> event
  with the \<open>Error\<close> \<open>Incomplete options\<close>, after whatever \<open>setOptions\<close> emitted, and
  returns without rendering: \<open>rendered\<close>, the node, the editor and the children of
  every host element are as before the call.
\<close>

theorem render_incomplete_options:
  "(truthyInput (Some input) \<and>
    \<not> isCompleteParsedInfographicOptions P (parsedOptions (setOptions P st input Replace False)) \<longrightarrow>
      (\<exists>st'. renderInfographic P st (Some input) = Inr (False, st')
         \<and> emitted st' = emitted (setOptions P st input Replace False)
                          @ [Emit ''error'' (Error ''Incomplete options'')]
         \<and> rendered st' = rendered st \<and> svgNode st' = svgNode st \<and> editor st' = editor st
         \<and> hostChildren st' = hostChildren st))
   \<and> (\<not> truthyInput arg \<and> \<not> isCompleteParsedInfographicOptions P (parsedOptions st) \<longrightarrow>
      (\<exists>st'. renderInfographic P st arg = Inr (False, st')
         \<and> emitted st' = emitted st @ [Emit ''error'' (Error ''Incomplete options'')]
         \<and> rendered st' = rendered st \<and> svgNode st' = svgNode st \<and> editor st' = editor st
         \<and> hostChildren st' = hostChildren st))
   \<and> (\<not> isCompleteParsedInfographicOptions P (parsedOptions (setOptions P st input Merge False)) \<longrightarrow>
      (\<exists>st'. update P st input = Inr (False, st')
         \<and> emitted st' = emitted (setOptions P st input Merge False)
                          @ [Emit ''error'' (Error ''Incomplete options'')]
         \<and> rendered st' = rendered st \<and> svgNode st' = svgNode st \<and> editor st' = editor st
         \<and> hostChildren st' = hostChildren st))"
proof (intro conjI impI)
  assume a: "truthyInput (Some input) \<and>
    \<not> isCompleteParsedInfographicOptions P (parsedOptions (setOptions P st input Replace False))"
  then have "renderInfographic P st (Some input) =
      Inr (False, emits (setOptions P st input Replace False)
                    [Emit ''error'' (Error ''Incomplete options'')])"
    by (simp add: renderInfographic_def performRender_incomplete)
  then show "\<exists>st'. renderInfographic P st (Some input) = Inr (False, st')
         \<and> emitted st' = emitted (setOptions P st input Replace False)
                          @ [Emit ''error'' (Error ''Incomplete options'')]
         \<and> rendered st' = rendered st \<and> svgNode st' = svgNode st \<and> editor st' = editor st
         \<and> hostChildren st' = hostChildren st"
    by (simp add: emits_frame setOptions_frame)
next
  assume a: "\<not> truthyInput arg \<and> \<not> isCompleteParsedInfographicOptions P (parsedOptions st)"
  then have "renderInfographic P st arg =
      Inr (False, emits st [Emit ''error'' (Error ''Incomplete options'')])"
    by (cases arg) (simp_all add: renderInfographic_def performRender_incomplete)
  then show "\<exists>st'. renderInfographic P st arg = Inr (False, st')
         \<and> emitted st' = emitted st @ [Emit ''error'' (Error ''Incomplete options'')]
         \<and> rendered st' = rendered st \<and> svgNode st' = svgNode st \<and> editor st' = editor st
         \<and> hostChildren st' = hostChildren st"
    by (simp add: emits_frame)
next
  assume a: "\<not> isCompleteParsedInfographicOptions P (parsedOptions (setOptions P st input Merge False))"
  then have "update P st input =
      Inr (False, emits (setOptions P st input Merge False)
                    [Emit ''error'' (Error ''Incomplete options'')])"
    by (simp add: update_def performRender_incomplete)
  then show "\<exists>st'. update P st input = Inr (False, st')
         \<and> emitted st' = emitted (setOptions P st input Merge False)
                          @ [Emit ''error'' (Error ''Incomplete options'')]
         \<and> rendered st' = rendered st \<and> svgNode st' = svgNode st \<and> editor st' = editor st
         \<and> hostChildren st' = hostChildren st"
    by (simp add: emits_frame setOptions_frame)
qed

text \<open>The example dependencies, ready for evaluation.\<close>

lemma exDeps_simps [simp]:
  "parseSyntax exDeps str = (exOptions\<lparr>editable := False\<rparr>, [], [])"
  "cloneOptions exDeps ob = ob"
  "mergeOptions exDeps a b = b"
  "parseOptions exDeps ob = \<lparr>hostContainer = Some 0, otherParsed = editable ob\<rparr>"
  "DEFAULT_OPTIONS exDeps = exOptions"
  "isCompleteParsedInfographicOptions exDeps p = otherParsed p"
  by (simp_all add: exDeps_def)

text \<open>
  The theorem on the example instance: an update whose options parse to incomplete
  ones leaves the rendered instance as it was and emits the error.
\<close>

theorem render_incomplete_options_witness:
  "\<not> isCompleteParsedInfographicOptions exDeps
       (parsedOptions (setOptions exDeps exInfographic (Syntax ''broken'') Merge False))
   \<and> (\<exists>st'. update exDeps exInfographic (Syntax ''broken'') = Inr (False, st')
         \<and> emitted st' = [Emit ''error'' (Error ''Incomplete options'')]
         \<and> rendered st' \<and> svgNode st' = Some 5
         \<and> editor st' = Some \<lparr>canUndo = True, canRedo = False, getHistorySize = 2\<rparr>
         \<and> hostChildren st' 0 = [5])"
proof -
  have inc: "\<not> isCompleteParsedInfographicOptions exDeps
       (parsedOptions (setOptions exDeps exInfographic (Syntax ''broken'') Merge False))"
    by (simp add: setOptions_def parseSyntaxOptions_def Let_def)
  have em: "emitted (setOptions exDeps exInfographic (Syntax ''broken'') Merge False) = []"
    by (simp add: setOptions_def parseSyntaxOptions_def Let_def)
  show ?thesis
    using render_incomplete_options [of "Syntax ''broken''" exDeps exInfographic None] inc
    by (auto simp: em)
qed

text \<open>
  For comparison, \<open>performRender\<close> on the example instance, whose parsed options are
  complete: the node and the children of the host are replaced, the editor is
  destroyed and created anew, the bridge is registered again.
\<close>

lemma performRender_complete_example:
  "performRender exDeps exInfographic =
     Inr (True, exInfographic
       \<lparr>svgNode := Some 9,
        hostChildren := (hostChildren exInfographic)(0 := [9]),
        editor := Some \<lparr>canUndo = False, canRedo = False, getHistorySize = 0\<rparr>,
        bridges := 2,
        emitted := [EditorDestroy, Emit ''rendered'' (InfographicRenderedEvent 9 exOptions)]\<rparr>)"
  by (simp add: performRender_def Let_def exDeps_def exInfographic_def exOptions_def emits_def)

end
